theory Spec2Isabelle
  imports Main
begin

section \<open>Values of the JavaScript side\<close>

text \<open>
  The two server files (\<^verbatim>\<open>src/backend/server.js\<close> and \<^verbatim>\<open>src/unnamed/part_000\<close>) are
  Express applications over one PostgreSQL table. Strings are modelled as \<^typ>\<open>string\<close>,
  one \<^typ>\<open>char\<close> per UTF-16 code unit below 256, so that \<^verbatim>\<open>s.length\<close> is \<^term>\<open>length s\<close>;
  the accented letters of the literals are written by their code (\<^verbatim>\<open>0xF3\<close> for o-acute).
  A field of a JSON body is \<^verbatim>\<open>undefined\<close> (absent), \<^verbatim>\<open>null\<close>, a boolean, a number or a
  string. A number is given by an integer numeral and is the double nearest to it;
  numbers with a fraction, arrays and nested objects are left out.
\<close>

datatype jsval = JUndefined | JNull | JBool bool | JNum int | JStr string

text \<open>\<^verbatim>\<open>!v\<close> is the negation of ToBoolean.\<close>

fun truthy :: "jsval \<Rightarrow> bool" where
  "truthy JUndefined = False"
| "truthy JNull = False"
| "truthy (JBool b) = b"
| "truthy (JNum n) = (n \<noteq> 0)"
| "truthy (JStr s) = (s \<noteq> [])"

fun typeof :: "jsval \<Rightarrow> string" where
  "typeof JUndefined = ''undefined''"
| "typeof JNull = ''object''"
| "typeof (JBool b) = ''boolean''"
| "typeof (JNum n) = ''number''"
| "typeof (JStr s) = ''string''"

subsection \<open>Characters and numerals\<close>

definition is_digit :: "char \<Rightarrow> bool" where
  "is_digit c = (c \<in> set ''0123456789'')"

definition is_hex_digit :: "char \<Rightarrow> bool" where
  "is_hex_digit c = (c \<in> set ''0123456789abcdefABCDEF'')"

definition is_octal_digit :: "char \<Rightarrow> bool" where
  "is_octal_digit c = (c \<in> set ''01234567'')"

definition is_binary_digit :: "char \<Rightarrow> bool" where
  "is_binary_digit c = (c \<in> set ''01'')"

text \<open>White space of the StringToNumber grammar, among the code units below 256:
  TAB, LF, VT, FF, CR, SP and NBSP.\<close>

definition js_space :: "char \<Rightarrow> bool" where
  "js_space c = (c \<in> set [CHR 0x09, CHR 0x0A, CHR 0x0B, CHR 0x0C, CHR 0x0D, CHR 0x20, CHR 0xA0])"

text \<open>White space of the store's integer input routine (C \<^verbatim>\<open>isspace\<close> on a byte).\<close>

definition pg_space :: "char \<Rightarrow> bool" where
  "pg_space c = (c \<in> set [CHR 0x09, CHR 0x0A, CHR 0x0B, CHR 0x0C, CHR 0x0D, CHR 0x20])"

definition digit_val :: "char \<Rightarrow> int" where
  "digit_val c = int (of_char c) - 48"

definition hex_val :: "char \<Rightarrow> int" where
  "hex_val c = (if is_digit c then int (of_char c) - 48
                else if c \<in> set ''abcdef'' then int (of_char c) - 87
                else int (of_char c) - 55)"

definition dec_value :: "string \<Rightarrow> int" where
  "dec_value ds = foldl (\<lambda>a c. 10 * a + digit_val c) 0 ds"

definition hex_value :: "string \<Rightarrow> int" where
  "hex_value ds = foldl (\<lambda>a c. 16 * a + hex_val c) 0 ds"

definition digit_char :: "nat \<Rightarrow> char" where
  "digit_char d = ''0123456789'' ! d"

fun dec_digits :: "nat \<Rightarrow> string" where
  "dec_digits n = (if n < 10 then [digit_char n] else dec_digits (n div 10) @ [digit_char (n mod 10)])"

declare dec_digits.simps [simp del]

text \<open>The decimal numeral of an integer, with its sign.\<close>

definition decimal :: "int \<Rightarrow> string" where
  "decimal n = (if n < 0 then CHR ''-'' # dec_digits (nat (- n)) else dec_digits (nat n))"

subsection \<open>Numbers\<close>

text \<open>
  \<open>JNum n\<close> is the number that the numeral \<open>n\<close> denotes: the double nearest to \<open>n\<close>, ties to
  the even significand. \<open>to_double\<close> gives its value, exact below \<open>2^53\<close>; a value of
  \<open>2^1024\<close> or more stands for \<^verbatim>\<open>Infinity\<close>.
\<close>

fun log2_floor :: "nat \<Rightarrow> nat" where
  "log2_floor a = (if a < 2 then 0 else Suc (log2_floor (a div 2)))"

declare log2_floor.simps [simp del]

definition to_double :: "int \<Rightarrow> int" where
  "to_double n =
     (let a = nat \<bar>n\<bar>; e = log2_floor a
      in if e < 53 then n
         else
           (let sh = e - 52; m = a div 2 ^ sh; r = a mod 2 ^ sh; half = 2 ^ (sh - 1);
                m' = (if half < r \<or> (r = half \<and> odd m) then m + 1 else m)
            in sgn n * int (m' * 2 ^ sh)))"

text \<open>
  \<^verbatim>\<open>Number.prototype.toString\<close> on a double of magnitude \<open>10^21\<close> or more: the fewest
  digits \<open>s\<close> such that \<open>s * 10^p\<close> is read back as the same double, the nearest to it when
  there is a choice, written with one digit before the point and the exponent. A numeral
  is read back as the double \<open>a\<close> when it lies within half the distance to each neighbour
  of \<open>a\<close>, the ends included when the significand of \<open>a\<close> is even.
\<close>

definition reads_back :: "nat \<Rightarrow> nat \<Rightarrow> bool" where
  "reads_back a v =
     (let sh = log2_floor a - 52; m = a div 2 ^ sh;
          up = 2 ^ (sh - 1);
          down = (if m = 2 ^ 52 then 2 ^ (sh - 2) else 2 ^ (sh - 1))
      in if even m then a - down \<le> v \<and> v \<le> a + up else a - down < v \<and> v < a + up)"

definition shortest_at :: "nat \<Rightarrow> nat \<Rightarrow> nat option" where
  "shortest_at a p =
     (let lo = (a div 10 ^ p) * 10 ^ p; hi = lo + 10 ^ p
      in if reads_back a lo \<and> reads_back a hi then
           Some (if a - lo < hi - a \<or> (a - lo = hi - a \<and> even (a div 10 ^ p)) then lo else hi)
         else if reads_back a lo then Some lo
         else if reads_back a hi then Some hi
         else None)"

definition shortest :: "nat \<Rightarrow> nat" where
  "shortest a =
     (case List.find (\<lambda>p. shortest_at a p \<noteq> None) (rev [0..<length (dec_digits a)]) of
        Some p \<Rightarrow> the (shortest_at a p)
      | None \<Rightarrow> a)"

definition exponential :: "nat \<Rightarrow> string" where
  "exponential a =
     (let ds = dec_digits (shortest a);
          fraction = rev (dropWhile (\<lambda>c. c = CHR ''0'') (rev (tl ds)))
      in hd ds # (if fraction = [] then [] else CHR ''.'' # fraction)
           @ ''e+'' @ dec_digits (length ds - 1))"

text \<open>\<^verbatim>\<open>Number.prototype.toString\<close> on the number of a numeral.\<close>

definition number_to_string :: "int \<Rightarrow> string" where
  "number_to_string n =
     (let v = to_double n; a = nat \<bar>v\<bar>
      in if 2 ^ 1024 \<le> a then (if v < 0 then ''-Infinity'' else ''Infinity'')
         else if a < 10 ^ 21 then decimal v
         else (if v < 0 then ''-'' else []) @ exponential a)"

definition trim :: "(char \<Rightarrow> bool) \<Rightarrow> string \<Rightarrow> string" where
  "trim sp s = rev (dropWhile sp (rev (dropWhile sp s)))"

definition strip_sign :: "string \<Rightarrow> string" where
  "strip_sign s = (case s of [] \<Rightarrow> [] | c # r \<Rightarrow> if c = CHR ''+'' \<or> c = CHR ''-'' then r else s)"

subsection \<open>\<^verbatim>\<open>isNaN\<close> on a string\<close>

text \<open>
  \<^verbatim>\<open>isNaN(id)\<close> converts the string with StringToNumber and tests the result. The literal
  is, between optional white space, empty (the number 0), a hexadecimal, octal or binary
  integer without sign, or an optionally signed decimal: \<^verbatim>\<open>Infinity\<close>, digits with an
  optional fraction, or a fraction alone, each with an optional exponent.
\<close>

definition exponent_part :: "string \<Rightarrow> bool" where
  "exponent_part s = (case s of [] \<Rightarrow> True
     | c # r \<Rightarrow> (c = CHR ''e'' \<or> c = CHR ''E'') \<and> strip_sign r \<noteq> [] \<and> list_all is_digit (strip_sign r))"

definition unsigned_decimal_literal :: "string \<Rightarrow> bool" where
  "unsigned_decimal_literal s =
     (s = ''Infinity'' \<or>
      (let ip = takeWhile is_digit s; r = dropWhile is_digit s in
       case r of
         [] \<Rightarrow> ip \<noteq> []
       | c # r2 \<Rightarrow>
           if c = CHR ''.'' then
             (ip \<noteq> [] \<or> takeWhile is_digit r2 \<noteq> []) \<and> exponent_part (dropWhile is_digit r2)
           else ip \<noteq> [] \<and> exponent_part r))"

definition non_decimal_literal :: "string \<Rightarrow> bool" where
  "non_decimal_literal s = (case s of
       z # x # ds \<Rightarrow> z = CHR ''0'' \<and> ds \<noteq> [] \<and>
         ((x = CHR ''x'' \<or> x = CHR ''X'') \<and> list_all is_hex_digit ds \<or>
          (x = CHR ''o'' \<or> x = CHR ''O'') \<and> list_all is_octal_digit ds \<or>
          (x = CHR ''b'' \<or> x = CHR ''B'') \<and> list_all is_binary_digit ds)
     | _ \<Rightarrow> False)"

definition string_numeric_literal :: "string \<Rightarrow> bool" where
  "string_numeric_literal s =
     (let t = trim js_space s in
      t = [] \<or> non_decimal_literal t \<or> unsigned_decimal_literal (strip_sign t))"

definition isNaN :: "string \<Rightarrow> bool" where
  "isNaN s = (\<not> string_numeric_literal s)"

subsection \<open>\<^verbatim>\<open>parseInt\<close>\<close>

text \<open>
  \<^verbatim>\<open>parseInt(v)\<close> with no radix: the argument is converted to a string (a number by
  its \<^verbatim>\<open>toString\<close>, so that of \<^verbatim>\<open>1e+21\<close> only the 1 is read), leading white space
  and a sign are dropped, a prefix \<^verbatim>\<open>0x\<close> selects radix 16, and the longest prefix of
  digits is read; \<open>None\<close> stands for \<^verbatim>\<open>NaN\<close> (no digit).
\<close>

definition parseInt_string :: "string \<Rightarrow> int option" where
  "parseInt_string s =
     (let t = dropWhile js_space s;
          sign = (if t \<noteq> [] \<and> hd t = CHR ''-'' then - 1 else 1);
          u = strip_sign t
      in if take 2 u = ''0x'' \<or> take 2 u = ''0X'' then
           (let z = takeWhile is_hex_digit (drop 2 u)
            in if z = [] then None else Some (sign * hex_value z))
         else
           (let z = takeWhile is_digit u
            in if z = [] then None else Some (sign * dec_value z)))"

fun parseInt :: "jsval \<Rightarrow> int option" where
  "parseInt (JNum n) = parseInt_string (number_to_string n)"
| "parseInt (JStr s) = parseInt_string s"
| "parseInt (JBool b) = None"
| "parseInt JNull = None"
| "parseInt JUndefined = None"

section \<open>The store\<close>

text \<open>
  The table \<^verbatim>\<open>scanned_products\<close> of \<^verbatim>\<open>initDatabase\<close>: \<^verbatim>\<open>id SERIAL PRIMARY KEY\<close>,
  \<^verbatim>\<open>code\<close> (\<^verbatim>\<open>INTEGER\<close> in \<^verbatim>\<open>server.js\<close>, \<^verbatim>\<open>VARCHAR(50)\<close> in \<^verbatim>\<open>part_000\<close>, hence the type
  parameter), \<^verbatim>\<open>name TEXT\<close>, \<^verbatim>\<open>quantity INTEGER\<close>, \<^verbatim>\<open>session_id TEXT\<close> and
  \<^verbatim>\<open>created_at TIMESTAMP DEFAULT NOW()\<close>. The store is the list of rows together with the
  next value of the sequence behind \<^verbatim>\<open>id\<close>.
\<close>

record 'c row =
  row_id :: int
  code :: 'c
  name :: string
  quantity :: int
  session_id :: string
  created_at :: nat

record 'c db =
  rows :: "'c row list"
  next_id :: int

definition in_int4 :: "int \<Rightarrow> bool" where
  "in_int4 v = (- 2147483648 \<le> v \<and> v \<le> 2147483647)"

text \<open>
  Query parameters travel as text and the store converts them to the type of their
  column when the statement is bound, before it runs. For an \<^verbatim>\<open>INTEGER\<close> the text is an
  optionally signed decimal numeral between optional white space, within 32 bits.
\<close>

definition int4in :: "string \<Rightarrow> int option" where
  "int4in s =
     (let t = dropWhile pg_space s;
          u = strip_sign t;
          ds = takeWhile is_digit u;
          rest = dropWhile is_digit u;
          v = (if t \<noteq> [] \<and> hd t = CHR ''-'' then - dec_value ds else dec_value ds)
      in if ds = [] \<or> \<not> list_all pg_space rest \<or> \<not> in_int4 v then None else Some v)"

text \<open>The driver sends a number by its \<^verbatim>\<open>toString\<close>, a boolean as \<^verbatim>\<open>true\<close> or
  \<^verbatim>\<open>false\<close>, and \<^verbatim>\<open>null\<close> or \<^verbatim>\<open>undefined\<close> as SQL \<^verbatim>\<open>NULL\<close>, which no column of the
  table accepts. \<open>None\<close> is a value the store refuses.\<close>

fun to_integer :: "jsval \<Rightarrow> int option" where
  "to_integer (JNum n) = (if in_int4 n then Some n else None)"
| "to_integer (JStr s) = int4in s"
| "to_integer (JBool b) = None"
| "to_integer JNull = None"
| "to_integer JUndefined = None"

fun to_text :: "jsval \<Rightarrow> string option" where
  "to_text (JStr s) = (if CHR 0x00 \<in> set s then None else Some s)"
| "to_text (JNum n) = Some (number_to_string n)"
| "to_text (JBool b) = Some (if b then ''true'' else ''false'')"
| "to_text JNull = None"
| "to_text JUndefined = None"

text \<open>A text bound for the \<^verbatim>\<open>VARCHAR(50)\<close> column.\<close>

definition to_varchar50 :: "string option \<Rightarrow> string option" where
  "to_varchar50 t = (case t of None \<Rightarrow> None
     | Some s \<Rightarrow> if length s \<le> 50 then Some s
                else if list_all (\<lambda>c. c = CHR '' '') (drop 50 s) then Some (take 50 s) else None)"

subsection \<open>The statements\<close>

text \<open>Each statement takes its bound parameters and the store, and gives the store
  afterwards and its result, \<open>None\<close> when the store raises an error.\<close>

type_synonym ('c, 'a) statement = "'c db \<Rightarrow> 'c db \<times> 'a option"

text \<open>\<^verbatim>\<open>INSERT INTO scanned_products (code, name, quantity, session_id) VALUES (...) RETURNING id\<close>\<close>

definition insert_product ::
  "nat \<Rightarrow> 'c option \<Rightarrow> string option \<Rightarrow> int option \<Rightarrow> string option \<Rightarrow> ('c, int) statement" where
  "insert_product t c n q s d =
     (case (c, n, q, s) of
        (Some c', Some n', Some q', Some s') \<Rightarrow>
          if in_int4 (next_id d) then
            (d\<lparr>rows := rows d @ [\<lparr>row_id = next_id d, code = c', name = n', quantity = q',
                                    session_id = s', created_at = t\<rparr>],
               next_id := next_id d + 1\<rparr>, Some (next_id d))
          else (d, None)
      | _ \<Rightarrow> (d, None))"

definition owned :: "int \<Rightarrow> string \<Rightarrow> 'c row \<Rightarrow> bool" where
  "owned i s r = (row_id r = i \<and> session_id r = s)"

text \<open>\<^verbatim>\<open>UPDATE scanned_products SET code = $1, name = $2, quantity = $3 WHERE id = $4 AND session_id = $5\<close>;
  the result is \<^verbatim>\<open>rowCount\<close>.\<close>

definition update_product ::
  "'c option \<Rightarrow> string option \<Rightarrow> int option \<Rightarrow> int option \<Rightarrow> string option \<Rightarrow> ('c, nat) statement" where
  "update_product c n q i s d =
     (case (c, n, q, i, s) of
        (Some c', Some n', Some q', Some i', Some s') \<Rightarrow>
          (d\<lparr>rows := map (\<lambda>r. if owned i' s' r then r\<lparr>code := c', name := n', quantity := q'\<rparr> else r)
                          (rows d)\<rparr>,
           Some (length (filter (owned i' s') (rows d))))
      | _ \<Rightarrow> (d, None))"

text \<open>\<^verbatim>\<open>DELETE FROM scanned_products WHERE id = $1 AND session_id = $2\<close>\<close>

definition delete_product :: "int option \<Rightarrow> string option \<Rightarrow> ('c, nat) statement" where
  "delete_product i s d =
     (case (i, s) of
        (Some i', Some s') \<Rightarrow>
          (d\<lparr>rows := filter (\<lambda>r. \<not> owned i' s' r) (rows d)\<rparr>,
           Some (length (filter (owned i' s') (rows d))))
      | _ \<Rightarrow> (d, None))"

text \<open>\<^verbatim>\<open>SELECT * FROM scanned_products WHERE session_id = $1\<close>\<close>

definition select_session :: "string option \<Rightarrow> ('c, 'c row list) statement" where
  "select_session s d =
     (case s of Some s' \<Rightarrow> (d, Some (filter (\<lambda>r. session_id r = s') (rows d))) | None \<Rightarrow> (d, None))"

text \<open>\<^verbatim>\<open>DELETE FROM scanned_products WHERE session_id = $1\<close>\<close>

definition delete_session :: "string option \<Rightarrow> ('c, nat) statement" where
  "delete_session s d =
     (case s of
        Some s' \<Rightarrow> (d\<lparr>rows := filter (\<lambda>r. session_id r \<noteq> s') (rows d)\<rparr>,
                    Some (length (filter (\<lambda>r. session_id r = s') (rows d))))
      | None \<Rightarrow> (d, None))"

text \<open>
  \<^verbatim>\<open>SELECT code, name, SUM(quantity) as total_quantity ... WHERE session_id = $1 GROUP BY code, name\<close>:
  the rows of the session are read one by one, each added to the running total of its
  group, a new group being opened at the first row of a pair. The sum of at most
  \<open>2^31\<close> 32-bit quantities (the ids are 32-bit) stays within the 64 bits of the result.
\<close>

record 'c total =
  t_code :: 'c
  t_name :: string
  total_quantity :: int

fun accumulate :: "'c row \<Rightarrow> 'c total list \<Rightarrow> 'c total list" where
  "accumulate r [] = [\<lparr>t_code = code r, t_name = name r, total_quantity = quantity r\<rparr>]"
| "accumulate r (g # gs) =
     (if t_code g = code r \<and> t_name g = name r
      then g\<lparr>total_quantity := total_quantity g + quantity r\<rparr> # gs
      else g # accumulate r gs)"

definition group_by_code_name :: "'c row list \<Rightarrow> 'c total list" where
  "group_by_code_name rs = foldl (\<lambda>gs r. accumulate r gs) [] rs"

definition select_totals :: "string option \<Rightarrow> ('c, 'c total list) statement" where
  "select_totals s d =
     (case s of
        Some s' \<Rightarrow> (d, Some (group_by_code_name (filter (\<lambda>r. session_id r = s') (rows d))))
      | None \<Rightarrow> (d, None))"

section \<open>Requests, responses and the surroundings of a handler\<close>

record request =
  authorization :: "string option"
  body_code :: jsval
  body_name :: jsval
  body_quantity :: jsval
  param_id :: string

text \<open>
  What a handler cannot decide itself: whether the store answers the \<open>k\<close>-th query of the
  request (\<open>k\<close> from 0), whether \<^verbatim>\<open>workbook.xlsx.writeBuffer()\<close> succeeds, the store's
  \<^verbatim>\<open>NOW()\<close>, the date of \<^verbatim>\<open>new Date().toISOString().split('T')[0]\<close>, and whether
  \<^verbatim>\<open>NODE_ENV\<close> is \<^verbatim>\<open>development\<close>.
\<close>

record env =
  db_up :: "nat \<Rightarrow> bool"
  xlsx_ok :: bool
  now :: nat
  today :: string
  development :: bool

record column =
  header :: string
  key :: string
  width :: nat

datatype 'c cell = Text string | Code 'c | Empty

record 'c worksheet =
  sheet_name :: string
  columns :: "column list"
  sheet_rows :: "'c cell list list"

datatype 'c payload =
    Message string
  | MessageId string int
  | Error string
  | ErrorDetails string "string option"
  | ErrorMissing string "jsval \<times> jsval \<times> jsval" "string list"
  | ErrorType string string string
  | ErrorLength string nat nat
  | RowArray "'c row list"

text \<open>A response is \<^verbatim>\<open>res.status(n).json(...)\<close>, the spreadsheet sent with its two headers,
  or none at all when an exception leaves the handler.\<close>

datatype 'c response =
    Json nat "'c payload"
  | Attachment string string "'c worksheet list"
  | Uncaught string

record 'c outcome =
  response :: "'c response"
  store :: "'c db"
  console :: "string list"
  queries :: nat

definition getSessionId :: "request \<Rightarrow> string" where
  "getSessionId req = (case authorization req of
       None \<Rightarrow> ''anonymous''
     | Some h \<Rightarrow> if h = [] then ''anonymous'' else h)"

text \<open>\<^verbatim>\<open>pool.query\<close>, as the \<open>k\<close>-th query of a request.\<close>

definition pool_query :: "env \<Rightarrow> nat \<Rightarrow> ('c, 'a) statement \<Rightarrow> ('c, 'a) statement" where
  "pool_query e k stmt d = (if db_up e k then stmt d else (d, None))"

definition internal_error :: string where
  "internal_error = ''Error interno del servidor''"

definition missing_data :: string where
  "missing_data = ''Faltan datos requeridos''"

section \<open>The handlers of \<^verbatim>\<open>src/backend/server.js\<close>\<close>

text \<open>\<^verbatim>\<open>app.post('/save', ...)\<close>\<close>

definition post_save :: "env \<Rightarrow> request \<Rightarrow> int db \<Rightarrow> int outcome" where
  "post_save e req d =
     (let c = body_code req; n = body_name req; q = body_quantity req;
          sessionId = getSessionId req
      in if \<not> truthy c \<or> \<not> truthy n \<or> \<not> truthy q then
           \<lparr>response = Json 400 (Error missing_data), store = d, console = [], queries = 0\<rparr>
         else
           case pool_query e 0
                  (insert_product (now e) (to_integer c) (to_text n) (to_integer q)
                     (to_text (JStr sessionId))) d of
             (d', Some i) \<Rightarrow>
               \<lparr>response = Json 200 (MessageId ''Registro guardado exitosamente'' i),
                store = d', console = [], queries = 1\<rparr>
           | (d', None) \<Rightarrow>
               \<lparr>response = Json 500 (Error internal_error), store = d',
                console = [''Error al guardar:''], queries = 1\<rparr>)"

text \<open>\<^verbatim>\<open>app.put('/save/:id', ...)\<close>\<close>

definition put_save :: "env \<Rightarrow> request \<Rightarrow> int db \<Rightarrow> int outcome" where
  "put_save e req d =
     (let c = body_code req; n = body_name req; q = body_quantity req;
          sessionId = getSessionId req; i = param_id req
      in if \<not> truthy c \<or> \<not> truthy n \<or> \<not> truthy q \<or> i = [] then
           \<lparr>response = Json 400 (Error missing_data), store = d, console = [], queries = 0\<rparr>
         else
           case pool_query e 0
                  (update_product (to_integer c) (to_text n) (to_integer q)
                     (to_integer (JStr i)) (to_text (JStr sessionId))) d of
             (d', Some rowCount) \<Rightarrow>
               if rowCount = 0 then
                 \<lparr>response = Json 404 (Error ''Registro no encontrado''), store = d',
                  console = [], queries = 1\<rparr>
               else
                 \<lparr>response = Json 200 (Message ''Registro actualizado exitosamente''), store = d',
                  console = [], queries = 1\<rparr>
           | (d', None) \<Rightarrow>
               \<lparr>response = Json 500 (Error internal_error), store = d',
                console = [''Error al actualizar:''], queries = 1\<rparr>)"

text \<open>\<^verbatim>\<open>app.delete('/delete/:id', ...)\<close>, the same text in both files.\<close>

definition invalid_id :: string where
  "invalid_id = ''ID inv'' @ [CHR 0xE1] @ ''lido''"

definition not_found_or_foreign :: string where
  "not_found_or_foreign =
     ''Registro no encontrado o no pertenece a esta sesi'' @ [CHR 0xF3] @ ''n''"

definition delete_delete :: "env \<Rightarrow> request \<Rightarrow> 'c db \<Rightarrow> 'c outcome" where
  "delete_delete e req d =
     (let sessionId = getSessionId req; i = param_id req
      in if i = [] \<or> isNaN i then
           \<lparr>response = Json 400 (Error invalid_id), store = d, console = [], queries = 0\<rparr>
         else
           case pool_query e 0
                  (delete_product (to_integer (JStr i)) (to_text (JStr sessionId))) d of
             (d', Some rowCount) \<Rightarrow>
               if rowCount = 0 then
                 \<lparr>response = Json 404 (Error not_found_or_foreign), store = d',
                  console = [], queries = 1\<rparr>
               else
                 \<lparr>response = Json 200 (Message ''Registro eliminado exitosamente''), store = d',
                  console = [], queries = 1\<rparr>
           | (d', None) \<Rightarrow>
               \<lparr>response = Json 500 (Error internal_error), store = d',
                console = [''Error al eliminar:''], queries = 1\<rparr>)"

text \<open>\<^verbatim>\<open>app.get('/records', ...)\<close>, the same text in both files.\<close>

definition get_records :: "env \<Rightarrow> request \<Rightarrow> 'c db \<Rightarrow> 'c outcome" where
  "get_records e req d =
     (let sessionId = getSessionId req
      in case pool_query e 0 (select_session (to_text (JStr sessionId))) d of
           (d', Some rs) \<Rightarrow>
             \<lparr>response = Json 200 (RowArray rs), store = d', console = [], queries = 1\<rparr>
         | (d', None) \<Rightarrow>
             \<lparr>response = Json 500 (Error internal_error), store = d',
              console = [''Error al recuperar registros:''], queries = 1\<rparr>)"

text \<open>\<^verbatim>\<open>app.get('/recover', ...)\<close>, the same text in both files.\<close>

definition get_recover :: "env \<Rightarrow> request \<Rightarrow> 'c db \<Rightarrow> 'c outcome" where
  "get_recover e req d =
     (let sessionId = getSessionId req
      in case pool_query e 0 (select_session (to_text (JStr sessionId))) d of
           (d', Some rs) \<Rightarrow>
             \<lparr>response = Json 200 (RowArray rs), store = d', console = [], queries = 1\<rparr>
         | (d', None) \<Rightarrow>
             \<lparr>response = Json 500 (Error internal_error), store = d',
              console = [''Error al recuperar datos:''], queries = 1\<rparr>)"

text \<open>
  \<^verbatim>\<open>app.get('/export', ...)\<close>, the same text in both files. The worksheet gets its three
  columns, whose headers make the first row, and \<^verbatim>\<open>addRows\<close> appends one row per result
  row, each cell found by the key of its column. The sum is a \<^verbatim>\<open>bigint\<close>, which the
  driver hands over as the text of its decimal numeral, no other parser being set, and
  the cell holds that text. When the purge fails the spreadsheet
  has been sent already: the \<^verbatim>\<open>catch\<close> logs, and its \<^verbatim>\<open>res.status(500).json\<close> cannot
  replace the response.
\<close>

definition export_columns :: "column list" where
  "export_columns =
     [\<lparr>header = ''C'' @ [CHR 0xF3] @ ''digo'', key = ''code'', width = 15\<rparr>,
      \<lparr>header = ''Nombre'', key = ''name'', width = 50\<rparr>,
      \<lparr>header = ''Cantidad Total'', key = ''total_quantity'', width = 15\<rparr>]"

definition cell_of :: "'c total \<Rightarrow> string \<Rightarrow> 'c cell" where
  "cell_of g k = (if k = ''code'' then Code (t_code g)
                  else if k = ''name'' then Text (t_name g)
                  else if k = ''total_quantity'' then Text (decimal (total_quantity g))
                  else Empty)"

definition addRows :: "'c total list \<Rightarrow> 'c worksheet \<Rightarrow> 'c worksheet" where
  "addRows gs w =
     w\<lparr>sheet_rows := sheet_rows w @ map (\<lambda>g. map (\<lambda>col. cell_of g (key col)) (columns w)) gs\<rparr>"

definition addWorksheet :: "string \<Rightarrow> column list \<Rightarrow> 'c worksheet" where
  "addWorksheet nm cols =
     \<lparr>sheet_name = nm, columns = cols, sheet_rows = [map (\<lambda>col. Text (header col)) cols]\<rparr>"

definition xlsx_type :: string where
  "xlsx_type = ''application/vnd.openxmlformats-officedocument.spreadsheetml.sheet''"

definition report_failed :: "'c db \<Rightarrow> nat \<Rightarrow> 'c outcome" where
  "report_failed d k =
     \<lparr>response = Json 500 (Error ''Error al generar el reporte''), store = d,
      console = [''Error al exportar:''], queries = k\<rparr>"

definition get_export :: "env \<Rightarrow> request \<Rightarrow> 'c db \<Rightarrow> 'c outcome" where
  "get_export e req d =
     (let sessionId = getSessionId req
      in case pool_query e 0 (select_totals (to_text (JStr sessionId))) d of
           (d1, None) \<Rightarrow> report_failed d1 1
         | (d1, Some rs) \<Rightarrow>
             (let workbook = [addRows rs (addWorksheet ''Productos Escaneados'' export_columns)];
                  sent = Attachment xlsx_type
                           (''attachment; filename=inventario_'' @ today e @ ''.xlsx'') workbook
              in if \<not> xlsx_ok e then report_failed d1 1
                 else
                   (case pool_query e 1 (delete_session (to_text (JStr sessionId))) d1 of
                      (d2, Some rowCount) \<Rightarrow>
                        \<lparr>response = sent, store = d2, console = [], queries = 2\<rparr>
                    | (d2, None) \<Rightarrow>
                        \<lparr>response = sent, store = d2, console = [''Error al exportar:''],
                         queries = 2\<rparr>)))"

section \<open>The \<^verbatim>\<open>/save\<close> handler of \<^verbatim>\<open>src/unnamed/part_000\<close>\<close>

text \<open>
  \<^verbatim>\<open>code\<close> is bound by \<^verbatim>\<open>const { code, name, quantity } = req.body\<close>, so the assignment
  \<^verbatim>\<open>code = code.toString()\<close> in the branch for numbers throws a \<^verbatim>\<open>TypeError\<close>, outside of
  any \<^verbatim>\<open>try\<close>: the handler ends there without a response.
\<close>

definition code_not_text :: string where
  "code_not_text = ''El c'' @ [CHR 0xF3] @ ''digo debe ser una cadena de texto''"

definition code_too_long :: string where
  "code_too_long = ''El c'' @ [CHR 0xF3] @ ''digo es demasiado largo''"

definition post_save_part_000 :: "env \<Rightarrow> request \<Rightarrow> string db \<Rightarrow> string outcome" where
  "post_save_part_000 e req d =
     (let c = body_code req; n = body_name req; q = body_quantity req;
          sessionId = getSessionId req;
          received = [''Datos recibidos:'']
      in if \<not> truthy c \<or> \<not> truthy n \<or> \<not> truthy q then
           \<lparr>response = Json 400 (ErrorMissing missing_data (c, n, q) [''code'', ''name'', ''quantity'']),
            store = d, console = received, queries = 0\<rparr>
         else if typeof c = ''number'' then
           \<lparr>response = Uncaught ''TypeError: Assignment to constant variable.'',
            store = d, console = received, queries = 0\<rparr>
         else if typeof c \<noteq> ''string'' then
           \<lparr>response = Json 400 (ErrorType code_not_text (typeof c) ''ABC123 o 123456''),
            store = d, console = received, queries = 0\<rparr>
         else if (case c of JStr s \<Rightarrow> length s > 50 | _ \<Rightarrow> False) then
           \<lparr>response = Json 400 (ErrorLength code_too_long 50
                                   (case c of JStr s \<Rightarrow> length s | _ \<Rightarrow> 0)),
            store = d, console = received, queries = 0\<rparr>
         else
           case pool_query e 0
                  (insert_product (now e) (to_varchar50 (to_text c)) (to_text n)
                     (case parseInt q of None \<Rightarrow> None | Some v \<Rightarrow> to_integer (JNum v))
                     (to_text (JStr sessionId))) d of
             (d', Some i) \<Rightarrow>
               \<lparr>response = Json 200 (MessageId ''Registro guardado exitosamente'' i),
                store = d', console = received, queries = 1\<rparr>
           | (d', None) \<Rightarrow>
               \<lparr>response = Json 500 (ErrorDetails internal_error
                                       (if development e then Some ''err.message'' else None)),
                store = d', console = received @ [''Error al guardar:''], queries = 1\<rparr>)"

section \<open>Notions used by the properties\<close>

subsection \<open>Sessions, groups and sums\<close>

definition key_of :: "'c total \<Rightarrow> 'c \<times> string" where
  "key_of g = (t_code g, t_name g)"

definition row_key :: "'c row \<Rightarrow> 'c \<times> string" where
  "row_key r = (code r, name r)"

text \<open>The records of a session, and the sum of the quantities of those with a given pair.\<close>

definition records_of :: "string \<Rightarrow> 'c db \<Rightarrow> 'c row list" where
  "records_of s d = filter (\<lambda>r. session_id r = s) (rows d)"

definition quantity_sum :: "'c \<times> string \<Rightarrow> 'c row list \<Rightarrow> int" where
  "quantity_sum k rs = sum_list (map quantity (filter (\<lambda>r. row_key r = k) rs))"

definition total_sum :: "'c \<times> string \<Rightarrow> 'c total list \<Rightarrow> int" where
  "total_sum k gs = sum_list (map total_quantity (filter (\<lambda>g. key_of g = k) gs))"

text \<open>The rows of the sheet and the \<^verbatim>\<open>Content-Disposition\<close> of the response.\<close>

definition header_row :: "'c cell list" where
  "header_row = [Text (''C'' @ [CHR 0xF3] @ ''digo''), Text ''Nombre'', Text ''Cantidad Total'']"

definition data_row :: "'c total \<Rightarrow> 'c cell list" where
  "data_row g = [Code (t_code g), Text (t_name g), Text (decimal (total_quantity g))]"

definition export_file :: "env \<Rightarrow> string" where
  "export_file e = ''attachment; filename=inventario_'' @ today e @ ''.xlsx''"

subsection \<open>Stores and requests\<close>

text \<open>What the table keeps true of every store: \<^verbatim>\<open>id\<close> is a primary key, and every id
  in use was drawn from the sequence.\<close>

definition wf_db :: "'c db \<Rightarrow> bool" where
  "wf_db d = (distinct (map row_id (rows d)) \<and> list_all (\<lambda>r. row_id r < next_id d) (rows d))"

text \<open>A header value holds no NUL character; the store refuses a text that does.\<close>

definition session_text :: "request \<Rightarrow> bool" where
  "session_text req = (CHR 0x00 \<notin> set (getSessionId req))"

text \<open>The tests at the head of the three handlers that write, passed.\<close>

definition save_valid :: "request \<Rightarrow> bool" where
  "save_valid req =
     (truthy (body_code req) \<and> truthy (body_name req) \<and> truthy (body_quantity req))"

definition update_valid :: "request \<Rightarrow> bool" where
  "update_valid req =
     (truthy (body_code req) \<and> truthy (body_name req) \<and> truthy (body_quantity req)
      \<and> param_id req \<noteq> [])"

definition delete_valid :: "request \<Rightarrow> bool" where
  "delete_valid req = (\<not> (param_id req = [] \<or> isNaN (param_id req)))"

text \<open>The store accepts every parameter of the \<^verbatim>\<open>UPDATE\<close> of \<^verbatim>\<open>server.js\<close>.\<close>

definition update_bound :: "request \<Rightarrow> bool" where
  "update_bound req =
     (to_integer (body_code req) \<noteq> None \<and> to_text (body_name req) \<noteq> None
      \<and> to_integer (body_quantity req) \<noteq> None \<and> int4in (param_id req) \<noteq> None
      \<and> session_text req)"

text \<open>What the \<^verbatim>\<open>UPDATE\<close> does to one row, and the row an \<^verbatim>\<open>INSERT\<close> adds.\<close>

definition overwrite :: "int \<Rightarrow> string \<Rightarrow> int \<Rightarrow> string \<Rightarrow> int \<Rightarrow> int row \<Rightarrow> int row" where
  "overwrite i s c n q r = (if owned i s r then r\<lparr>code := c, name := n, quantity := q\<rparr> else r)"

definition new_row :: "env \<Rightarrow> request \<Rightarrow> 'c \<Rightarrow> string \<Rightarrow> int \<Rightarrow> 'c db \<Rightarrow> 'c row" where
  "new_row e req c n q d =
     \<lparr>row_id = next_id d, code = c, name = n, quantity = q, session_id = getSessionId req,
      created_at = now e\<rparr>"

text \<open>
  The inputs that a creation accepts, as each file has them: the three fields pass the
  test of presence and the store reads them as the values \<open>c\<close>, \<open>n\<close> and \<open>q\<close> of its
  columns. In \<^verbatim>\<open>server.js\<close> the code is read as a 32-bit integer; in \<^verbatim>\<open>part_000\<close> it is a
  text of at most 50 characters, and the quantity goes through \<^verbatim>\<open>parseInt\<close> first.
\<close>

definition valid_input :: "request \<Rightarrow> int \<Rightarrow> string \<Rightarrow> int \<Rightarrow> bool" where
  "valid_input req c n q =
     (save_valid req \<and> to_integer (body_code req) = Some c
      \<and> to_text (body_name req) = Some n \<and> to_integer (body_quantity req) = Some q)"

definition valid_input_part_000 :: "request \<Rightarrow> string \<Rightarrow> string \<Rightarrow> int \<Rightarrow> bool" where
  "valid_input_part_000 req c n q =
     (save_valid req \<and> body_code req = JStr c \<and> length c \<le> 50 \<and> CHR 0x00 \<notin> set c
      \<and> to_text (body_name req) = Some n
      \<and> parseInt (body_quantity req) = Some q \<and> in_int4 q)"

text \<open>A valid code and a valid name, whatever the quantity: present, and accepted by the
  store as the values \<open>c\<close> and \<open>n\<close>.\<close>

definition code_name_valid :: "request \<Rightarrow> int \<Rightarrow> string \<Rightarrow> bool" where
  "code_name_valid req c n =
     (truthy (body_code req) \<and> to_integer (body_code req) = Some c
      \<and> truthy (body_name req) \<and> to_text (body_name req) = Some n)"

definition code_name_valid_part_000 :: "request \<Rightarrow> string \<Rightarrow> string \<Rightarrow> bool" where
  "code_name_valid_part_000 req c n =
     (body_code req = JStr c \<and> c \<noteq> [] \<and> length c \<le> 50 \<and> CHR 0x00 \<notin> set c
      \<and> truthy (body_name req) \<and> to_text (body_name req) = Some n)"

text \<open>A syntactically valid integer, in the words of the specification: an optional sign
  and at least one decimal digit, nothing else.\<close>

definition integer_syntax :: "string \<Rightarrow> bool" where
  "integer_syntax s = (strip_sign s \<noteq> [] \<and> list_all is_digit (strip_sign s))"

subsection \<open>Concrete surroundings, requests and stores\<close>

text \<open>A store that answers and a workbook that is written; the same with a workbook that
  fails.\<close>

definition env_ok :: env where
  "env_ok = \<lparr>db_up = (\<lambda>k. True), xlsx_ok = True, now = 1715904000, today = ''2024-05-17'',
             development = False\<rparr>"

definition env_no_xlsx :: env where
  "env_no_xlsx = env_ok\<lparr>xlsx_ok := False\<rparr>"

text \<open>Requests of the sessions \<^verbatim>\<open>s1\<close> and \<^verbatim>\<open>s2\<close>, and variations of them in one field.\<close>

definition req_s1 :: request where
  "req_s1 = \<lparr>authorization = Some ''s1'', body_code = JNum 1001, body_name = JStr ''Widget'',
             body_quantity = JNum 5, param_id = ''2''\<rparr>"

definition req_s2 :: request where
  "req_s2 = \<lparr>authorization = Some ''s2'', body_code = JNum 2002, body_name = JStr ''Gadget'',
             body_quantity = JNum 9, param_id = ''2''\<rparr>"

definition req_ABC1 :: request where
  "req_ABC1 = \<lparr>authorization = Some ''s1'', body_code = JStr ''ABC1'', body_name = JStr ''Widget'',
               body_quantity = JNum 5, param_id = ''2''\<rparr>"

definition req_s2_guess :: request where
  "req_s2_guess = req_s2\<lparr>param_id := ''1''\<rparr>"

definition req_zero :: request where
  "req_zero = req_s1\<lparr>body_quantity := JNum 0\<rparr>"

definition req_ABC1_zero :: request where
  "req_ABC1_zero = req_ABC1\<lparr>body_quantity := JNum 0\<rparr>"

definition req_123 :: request where
  "req_123 = req_ABC1\<lparr>body_code := JNum 123\<rparr>"

definition req_1_5 :: request where
  "req_1_5 = req_s1\<lparr>param_id := ''1.5''\<rparr>"

definition req_abc :: request where
  "req_abc = req_s1\<lparr>param_id := ''abc''\<rparr>"

text \<open>A store with two records of one pair in the session \<^verbatim>\<open>s1\<close>, of quantities 3 and
  4, and a record of the session \<^verbatim>\<open>s2\<close>; and the store of a new table.\<close>

definition widget :: "int \<Rightarrow> int \<Rightarrow> string \<Rightarrow> int row" where
  "widget i q s = \<lparr>row_id = i, code = 1001, name = ''Widget'', quantity = q, session_id = s,
                   created_at = 1715900000\<rparr>"

definition db_three :: "int db" where
  "db_three = \<lparr>rows = [widget 1 3 ''s1'', widget 2 4 ''s1'', widget 3 6 ''s2''], next_id = 4\<rparr>"

definition db_empty :: "'c db" where
  "db_empty = \<lparr>rows = [], next_id = 1\<rparr>"

section \<open>Grouping and summing\<close>

lemma accumulate_keys:
  "map key_of (accumulate r gs) =
     (if row_key r \<in> set (map key_of gs) then map key_of gs else map key_of gs @ [row_key r])"
  by (induction gs) (auto simp: key_of_def row_key_def)

lemma accumulate_total_sum:
  "total_sum k (accumulate r gs) = total_sum k gs + (if row_key r = k then quantity r else 0)"
  by (induction gs) (auto simp: total_sum_def key_of_def row_key_def)

lemma group_snoc: "group_by_code_name (rs @ [r]) = accumulate r (group_by_code_name rs)"
  by (simp add: group_by_code_name_def)

lemma group_nil: "group_by_code_name [] = []"
  by (simp add: group_by_code_name_def)

lemma group_keys_distinct: "distinct (map key_of (group_by_code_name rs))"
proof (induction rs rule: rev_induct)
  case Nil
  show ?case by (simp add: group_nil)
next
  case (snoc r rs)
  then show ?case by (simp add: group_snoc accumulate_keys)
qed

lemma group_keys_set: "set (map key_of (group_by_code_name rs)) = row_key ` set rs"
proof (induction rs rule: rev_induct)
  case Nil
  show ?case by (simp add: group_nil)
next
  case (snoc r rs)
  then show ?case by (auto simp: group_snoc accumulate_keys)
qed

lemma group_total_sum: "total_sum k (group_by_code_name rs) = quantity_sum k rs"
proof (induction rs rule: rev_induct)
  case Nil
  show ?case by (simp add: group_nil total_sum_def quantity_sum_def)
next
  case (snoc r rs)
  then show ?case by (simp add: group_snoc accumulate_total_sum quantity_sum_def)
qed

lemma distinct_key_filter:
  "distinct (map key_of gs) \<Longrightarrow> g \<in> set gs \<Longrightarrow> filter (\<lambda>h. key_of h = key_of g) gs = [g]"
proof (induction gs)
  case Nil
  then show ?case by simp
next
  case (Cons h gs)
  show ?case
  proof (cases "h = g")
    case True
    have "key_of g \<notin> key_of ` set gs"
      using Cons.prems(1) True by simp
    then have "\<forall>x\<in>set gs. key_of x \<noteq> key_of g"
      by (auto simp: image_iff)
    then have "filter (\<lambda>x. key_of x = key_of g) gs = []"
      by (simp add: filter_empty_conv)
    with True show ?thesis by simp
  next
    case False
    with Cons.prems have "g \<in> set gs" by simp
    moreover from this Cons.prems(1) have "key_of h \<noteq> key_of g" by force
    ultimately show ?thesis using Cons by simp
  qed
qed

lemma group_total:
  assumes "g \<in> set (group_by_code_name rs)"
  shows "total_quantity g = quantity_sum (key_of g) rs"
proof -
  have "total_sum (key_of g) (group_by_code_name rs) = total_quantity g"
    using distinct_key_filter [OF group_keys_distinct assms] by (simp add: total_sum_def)
  then show ?thesis by (simp add: group_total_sum)
qed

section \<open>What each handler does when its queries are answered\<close>

lemma workbook_rows:
  "addRows gs (addWorksheet nm export_columns) =
     \<lparr>sheet_name = nm, columns = export_columns, sheet_rows = header_row # map data_row gs\<rparr>"
  by (simp add: addRows_def addWorksheet_def export_columns_def cell_of_def header_row_def
      data_row_def)

lemma get_export_sent:
  assumes "db_up e 0" and "xlsx_ok e" and "session_text req"
  shows "response (get_export e req d) =
           Attachment xlsx_type (export_file e)
             [\<lparr>sheet_name = ''Productos Escaneados'', columns = export_columns,
               sheet_rows = header_row #
                 map data_row (group_by_code_name (records_of (getSessionId req) d))\<rparr>]"
  using assms
  by (simp add: get_export_def pool_query_def select_totals_def delete_session_def session_text_def
      workbook_rows records_of_def export_file_def Let_def split: prod.splits option.splits)

lemma get_export_purged:
  assumes "db_up e 0" and "xlsx_ok e" and "session_text req" and "db_up e 1"
  shows "store (get_export e req d) = d\<lparr>rows := filter (\<lambda>r. session_id r \<noteq> getSessionId req) (rows d)\<rparr>"
    and "console (get_export e req d) = []"
  using assms
  by (simp_all add: get_export_def pool_query_def select_totals_def delete_session_def session_text_def
      Let_def)

lemma get_export_failed:
  assumes "\<not> (db_up e 0 \<and> xlsx_ok e)"
  shows "get_export e req d = report_failed d 1"
  using assms
  by (auto simp add: get_export_def pool_query_def select_totals_def Let_def split: option.splits)

lemma get_records_ok:
  assumes "db_up e 0" and "session_text req"
  shows "get_records e req d =
           \<lparr>response = Json 200 (RowArray (records_of (getSessionId req) d)), store = d,
            console = [], queries = 1\<rparr>"
  using assms
  by (simp add: get_records_def pool_query_def select_session_def session_text_def records_of_def
      Let_def)

section \<open>The export aggregates by code and name\<close>

text \<open>
  Claim C1. When the store answers and the workbook is written, the response of
  \<^verbatim>\<open>GET /export\<close> is a workbook of one sheet whose first row is the header
  (\<^term>\<open>header_row\<close>) and whose other rows are the groups of the session's records:
  no pair (code, name) occurs twice among them, the pairs are exactly those of the
  session's records, and the row of each group holds its code, its name and, as the text
  of its decimal numeral, the sum of the quantities of the session's records with its
  pair. Two records of one pair with quantities 3 and 4 give the total 7.
\<close>

theorem export_groups_and_sums:
  assumes "db_up e 0" and "xlsx_ok e" and "session_text req"
  shows "response (get_export e req d) =
           Attachment xlsx_type (export_file e)
             [\<lparr>sheet_name = ''Productos Escaneados'', columns = export_columns,
               sheet_rows = header_row #
                 map data_row (group_by_code_name (records_of (getSessionId req) d))\<rparr>]
         \<and> distinct (map key_of (group_by_code_name (records_of (getSessionId req) d)))
         \<and> set (map key_of (group_by_code_name (records_of (getSessionId req) d)))
             = row_key ` set (records_of (getSessionId req) d)
         \<and> list_all (\<lambda>g. total_quantity g = quantity_sum (key_of g) (records_of (getSessionId req) d))
             (group_by_code_name (records_of (getSessionId req) d))
         \<and> list_all (\<lambda>g. data_row g =
               [Code (t_code g), Text (t_name g),
                Text (decimal (quantity_sum (key_of g) (records_of (getSessionId req) d)))])
             (group_by_code_name (records_of (getSessionId req) d))"
proof (intro conjI)
  show "list_all (\<lambda>g. total_quantity g = quantity_sum (key_of g) (records_of (getSessionId req) d))
          (group_by_code_name (records_of (getSessionId req) d))"
    by (simp add: list_all_iff group_total)
  show "list_all (\<lambda>g. data_row g =
               [Code (t_code g), Text (t_name g),
                Text (decimal (quantity_sum (key_of g) (records_of (getSessionId req) d)))])
             (group_by_code_name (records_of (getSessionId req) d))"
    by (simp add: list_all_iff data_row_def group_total)
qed (rule get_export_sent [OF assms] group_keys_distinct group_keys_set)+

theorem export_groups_and_sums_witness:
  "db_up env_ok 0 \<and> xlsx_ok env_ok \<and> session_text req_s1
   \<and> response (get_export env_ok req_s1 db_three) =
       Attachment xlsx_type ''attachment; filename=inventario_2024-05-17.xlsx''
         [\<lparr>sheet_name = ''Productos Escaneados'', columns = export_columns,
           sheet_rows = [header_row, [Code 1001, Text ''Widget'', Text ''7'']]\<rparr>]
   \<and> quantity_sum (1001, ''Widget'') (records_of ''s1'' db_three) = 7"
proof -
  have h: "db_up env_ok 0" "xlsx_ok env_ok" "session_text req_s1"
    by (simp_all add: env_ok_def req_s1_def session_text_def getSessionId_def)
  have g: "group_by_code_name (records_of (getSessionId req_s1) db_three)
             = [\<lparr>t_code = 1001, t_name = ''Widget'', total_quantity = 7\<rparr>]"
    by (simp add: group_by_code_name_def records_of_def getSessionId_def req_s1_def db_three_def
        widget_def)
  have q: "quantity_sum (1001, ''Widget'') (records_of ''s1'' db_three) = 7"
    by (simp add: quantity_sum_def records_of_def db_three_def widget_def row_key_def)
  have t: "decimal 7 = ''7''"
    by code_simp
  have "response (get_export env_ok req_s1 db_three) =
           Attachment xlsx_type (export_file env_ok)
             [\<lparr>sheet_name = ''Productos Escaneados'', columns = export_columns,
               sheet_rows = header_row #
                 map data_row (group_by_code_name (records_of (getSessionId req_s1) db_three))\<rparr>]"
    using export_groups_and_sums [OF h, of db_three] by (rule conjunct1)
  then have "response (get_export env_ok req_s1 db_three) =
       Attachment xlsx_type ''attachment; filename=inventario_2024-05-17.xlsx''
         [\<lparr>sheet_name = ''Productos Escaneados'', columns = export_columns,
           sheet_rows = [header_row, [Code 1001, Text ''Widget'', Text ''7'']]\<rparr>]"
    by (simp add: g data_row_def t export_file_def env_ok_def)
  with h q show ?thesis
    by simp
qed

text \<open>After the purge the session has no record, and a session without records loses
  nothing by it.\<close>

lemma records_of_purged:
  "records_of s (d\<lparr>rows := filter (\<lambda>r. session_id r \<noteq> s) (rows d)\<rparr>) = []"
  by (simp add: records_of_def filter_empty_conv)

lemma purge_nothing:
  assumes "records_of s d = []"
  shows "d\<lparr>rows := filter (\<lambda>r. session_id r \<noteq> s) (rows d)\<rparr> = d"
proof -
  have "\<forall>r\<in>set (rows d). session_id r \<noteq> s"
    using assms by (simp add: records_of_def filter_empty_conv)
  then have "filter (\<lambda>r. session_id r \<noteq> s) (rows d) = rows d"
    by simp
  then show ?thesis by simp
qed

section \<open>The purge follows the build\<close>

text \<open>
  Claim C2. \<^verbatim>\<open>GET /export\<close> deletes the records of the session only once the
  spreadsheet has been built. When the store answers both statements and the workbook is
  written, the spreadsheet is sent, the store keeps exactly the rows of the other
  sessions, and \<^verbatim>\<open>GET /records\<close> for the session then answers the empty array. When the
  aggregation or the writing of the workbook fails, the answer is the error 500 and the
  store is what it was.
\<close>

theorem export_purges_only_after_build:
  assumes "session_text req" and "getSessionId req' = getSessionId req" and "db_up e' 0"
  shows "(db_up e 0 \<and> xlsx_ok e \<and> db_up e 1 \<longrightarrow>
            (\<exists>wb. response (get_export e req d) = Attachment xlsx_type (export_file e) wb)
          \<and> rows (store (get_export e req d))
              = filter (\<lambda>r. session_id r \<noteq> getSessionId req) (rows d)
          \<and> records_of (getSessionId req) (store (get_export e req d)) = []
          \<and> response (get_records e' req' (store (get_export e req d))) = Json 200 (RowArray []))
       \<and> (\<not> (db_up e 0 \<and> xlsx_ok e) \<longrightarrow>
            response (get_export e req d) = Json 500 (Error ''Error al generar el reporte'')
          \<and> store (get_export e req d) = d)"
proof (intro conjI impI)
  assume ok: "db_up e 0 \<and> xlsx_ok e \<and> db_up e 1"
  let ?d' = "store (get_export e req d)"
  have st: "?d' = d\<lparr>rows := filter (\<lambda>r. session_id r \<noteq> getSessionId req) (rows d)\<rparr>"
    using ok assms(1) by (simp add: get_export_purged)
  show "\<exists>wb. response (get_export e req d) = Attachment xlsx_type (export_file e) wb"
    using ok assms(1) by (simp add: get_export_sent)
  show "rows ?d' = filter (\<lambda>r. session_id r \<noteq> getSessionId req) (rows d)"
    by (simp add: st)
  show none: "records_of (getSessionId req) ?d' = []"
    by (simp add: st records_of_purged)
  have "session_text req'"
    using assms(1,2) by (simp add: session_text_def)
  then show "response (get_records e' req' ?d') = Json 200 (RowArray [])"
    using assms(2,3) none by (simp add: get_records_ok)
next
  assume "\<not> (db_up e 0 \<and> xlsx_ok e)"
  then have "get_export e req d = report_failed d 1"
    by (rule get_export_failed)
  then show "response (get_export e req d) = Json 500 (Error ''Error al generar el reporte'')"
    and "store (get_export e req d) = d"
    by (simp_all add: report_failed_def)
qed

lemma env_ok_simps:
  "db_up env_ok k" "xlsx_ok env_ok" "db_up env_no_xlsx k" "\<not> xlsx_ok env_no_xlsx"
  by (simp_all add: env_ok_def env_no_xlsx_def)

lemma req_sessions:
  "getSessionId req_s1 = ''s1''" "getSessionId req_s2 = ''s2''" "getSessionId req_ABC1 = ''s1''"
  "session_text req_s1" "session_text req_s2" "session_text req_ABC1"
  by (simp_all add: getSessionId_def session_text_def req_s1_def req_s2_def req_ABC1_def)

theorem export_purges_only_after_build_witness:
  "session_text req_s1 \<and> getSessionId req_s1 = getSessionId req_s1 \<and> db_up env_ok 0
   \<and> (db_up env_ok 0 \<and> xlsx_ok env_ok \<and> db_up env_ok 1)
   \<and> rows (store (get_export env_ok req_s1 db_three)) = [widget 3 6 ''s2'']
   \<and> response (get_records env_ok req_s1 (store (get_export env_ok req_s1 db_three)))
       = Json 200 (RowArray [])
   \<and> \<not> (db_up env_no_xlsx 0 \<and> xlsx_ok env_no_xlsx)
   \<and> response (get_export env_no_xlsx req_s1 db_three)
       = Json 500 (Error ''Error al generar el reporte'')
   \<and> store (get_export env_no_xlsx req_s1 db_three) = db_three"
proof -
  have h: "session_text req_s1" "getSessionId req_s1 = getSessionId req_s1" "db_up env_ok 0"
    by (simp_all add: env_ok_simps req_sessions)
  have f: "filter (\<lambda>r. session_id r \<noteq> ''s1'') (rows db_three) = [widget 3 6 ''s2'']"
    by (simp add: db_three_def widget_def)
  show ?thesis
    using h f export_purges_only_after_build [OF h, of env_ok db_three]
      export_purges_only_after_build [OF h, of env_no_xlsx db_three]
    by (simp add: env_ok_simps req_sessions)
qed

text \<open>The purge is a statement of its own: should the store fail on it, the spreadsheet
  has left already and the rows stay.\<close>

lemma export_purge_fault:
  assumes "db_up e 0" and "xlsx_ok e" and "session_text req" and "\<not> db_up e 1"
  shows "\<exists>wb. response (get_export e req d) = Attachment xlsx_type (export_file e) wb"
    and "store (get_export e req d) = d"
    and "console (get_export e req d) = [''Error al exportar:'']"
  using assms
  by (simp_all add: get_export_def pool_query_def select_totals_def delete_session_def
      session_text_def export_file_def Let_def)

section \<open>Exporting a session without records\<close>

text \<open>
  Claim C10. For a session without records, when the store answers and the workbook is
  written, \<^verbatim>\<open>GET /export\<close> sends a spreadsheet whose only row is the header; the purge
  runs as the second query, deletes nothing and raises nothing, so the store is
  unchanged and nothing is logged. There is no test of a row count as in
  \<^verbatim>\<open>PUT /save/:id\<close> and \<^verbatim>\<open>DELETE /delete/:id\<close>. The handler has the same text in both
  files, and the property holds for either type of \<^verbatim>\<open>code\<close>.
\<close>

theorem export_of_empty_session:
  assumes "records_of (getSessionId req) d = []"
    and "db_up e 0" and "xlsx_ok e" and "db_up e 1" and "session_text req"
  shows "response (get_export e req d) =
           Attachment xlsx_type (export_file e)
             [\<lparr>sheet_name = ''Productos Escaneados'', columns = export_columns,
               sheet_rows = [header_row]\<rparr>]
         \<and> store (get_export e req d) = d
         \<and> console (get_export e req d) = []
         \<and> queries (get_export e req d) = 2"
proof (intro conjI)
  show "response (get_export e req d) =
           Attachment xlsx_type (export_file e)
             [\<lparr>sheet_name = ''Productos Escaneados'', columns = export_columns,
               sheet_rows = [header_row]\<rparr>]"
    using assms by (simp add: get_export_sent group_nil)
  show "store (get_export e req d) = d"
    using assms by (simp add: get_export_purged purge_nothing)
  show "console (get_export e req d) = []"
    using assms by (simp add: get_export_purged)
  show "queries (get_export e req d) = 2"
    using assms(2-5)
    by (simp add: get_export_def pool_query_def select_totals_def delete_session_def
        session_text_def Let_def)
qed

theorem export_of_empty_session_witness:
  "records_of (getSessionId req_s1) (db_empty :: int db) = []
   \<and> db_up env_ok 0 \<and> xlsx_ok env_ok \<and> db_up env_ok 1 \<and> session_text req_s1
   \<and> response (get_export env_ok req_s1 (db_empty :: int db)) =
       Attachment xlsx_type ''attachment; filename=inventario_2024-05-17.xlsx''
         [\<lparr>sheet_name = ''Productos Escaneados'', columns = export_columns,
           sheet_rows = [header_row]\<rparr>]
   \<and> store (get_export env_ok req_s1 (db_empty :: int db)) = db_empty"
proof -
  have h: "records_of (getSessionId req_s1) (db_empty :: int db) = []"
    "db_up env_ok 0" "xlsx_ok env_ok" "db_up env_ok 1" "session_text req_s1"
    by (simp_all add: env_ok_simps req_sessions records_of_def db_empty_def)
  show ?thesis
    using h export_of_empty_session [OF h]
    by (simp add: export_file_def env_ok_def)
qed

section \<open>\<^verbatim>\<open>/recover\<close> and \<^verbatim>\<open>/records\<close>\<close>

text \<open>
  Claim C9. For every store, request and behaviour of the store, \<^verbatim>\<open>GET /recover\<close> and
  \<^verbatim>\<open>GET /records\<close> send the same response (the same rows, or the same error 500), leave
  the same store, and issue the same number of queries.
\<close>

theorem recover_is_records:
  "response (get_recover e req d) = response (get_records e req d)
   \<and> store (get_recover e req d) = store (get_records e req d)
   \<and> queries (get_recover e req d) = queries (get_records e req d)"
  by (simp add: get_recover_def get_records_def Let_def split: prod.splits option.splits)

text \<open>Only the line written to the server's console on a failure tells them apart.\<close>

lemma recover_logs_its_own_line:
  assumes "\<not> db_up e 0"
  shows "console (get_records e req d) = [''Error al recuperar registros:'']"
    and "console (get_recover e req d) = [''Error al recuperar datos:'']"
  using assms by (simp_all add: get_recover_def get_records_def pool_query_def Let_def)

section \<open>Integers of the store are numbers of JavaScript\<close>

lemma pg_space_js_space: "pg_space c \<Longrightarrow> js_space c"
  by (auto simp add: pg_space_def js_space_def)

lemma digit_not_space: "is_digit c \<Longrightarrow> \<not> js_space c"
  by (auto simp add: is_digit_def js_space_def)

lemma digit_not_sign: "is_digit c \<Longrightarrow> c \<noteq> CHR ''+'' \<and> c \<noteq> CHR ''-''"
  by (auto simp add: is_digit_def)

lemma sign_not_space: "\<not> js_space CHR ''+''" "\<not> js_space CHR ''-''"
  by (simp_all add: js_space_def)

lemma digits_are_decimal_literal:
  assumes "ds \<noteq> []" and "list_all is_digit ds"
  shows "unsigned_decimal_literal ds"
proof -
  have tw: "takeWhile is_digit ds = ds" and dw: "dropWhile is_digit ds = []"
    using assms(2) by (simp_all add: list_all_iff)
  show ?thesis
    unfolding unsigned_decimal_literal_def tw dw using assms(1) by simp
qed

lemma strip_sign_digits:
  assumes "ds \<noteq> []" and "list_all is_digit ds"
  shows "strip_sign ds = ds"
  using assms by (cases ds) (auto simp add: strip_sign_def dest: digit_not_sign)

lemma trim_signed_digits:
  assumes "ds \<noteq> []" and "list_all is_digit ds" and "sg = [] \<or> sg = ''+'' \<or> sg = ''-''"
    and "list_all js_space pre" and "list_all js_space post"
  shows "trim js_space (pre @ sg @ ds @ post) = sg @ ds"
proof -
  obtain c cs where front: "sg @ ds = c # cs" and c: "\<not> js_space c"
    using assms(1-3) by (cases ds) (auto simp add: sign_not_space dest: digit_not_space)
  have "dropWhile js_space (pre @ (c # cs) @ post) = (c # cs) @ post"
  proof -
    have "js_space x" if "x \<in> set pre" for x
      using assms(4) that by (simp add: list_all_iff)
    then have "dropWhile js_space (pre @ (c # cs) @ post) = dropWhile js_space ((c # cs) @ post)"
      by (rule dropWhile_append2)
    with c show ?thesis by simp
  qed
  then have left: "dropWhile js_space (pre @ sg @ ds @ post) = sg @ ds @ post"
    using front by (metis append.assoc)
  have "is_digit (last ds)"
    using assms(1,2) by (simp add: list_all_iff)
  then have l: "\<not> js_space (last (sg @ ds))"
    using assms(1) by (simp add: digit_not_space)
  have "rev (sg @ ds) \<noteq> []"
    using assms(1) by simp
  then obtain z zs where rv: "rev (sg @ ds) = z # zs"
    by (cases "rev (sg @ ds)") auto
  then have "z = last (sg @ ds)"
    using hd_rev [of "sg @ ds"] by simp
  with l have z: "\<not> js_space z"
    by simp
  have "rev (sg @ ds @ post) = rev post @ z # zs"
    using rv by simp
  moreover have "dropWhile js_space (rev post @ z # zs) = z # zs"
  proof -
    have "js_space x" if "x \<in> set (rev post)" for x
      using assms(5) that by (simp add: list_all_iff)
    then have "dropWhile js_space (rev post @ z # zs) = dropWhile js_space (z # zs)"
      by (rule dropWhile_append2)
    with z show ?thesis by simp
  qed
  ultimately have "dropWhile js_space (rev (sg @ ds @ post)) = rev (sg @ ds)"
    using rv by simp
  with left show ?thesis
    by (simp add: trim_def)
qed

lemma signed_digits_numeric:
  assumes "ds \<noteq> []" and "list_all is_digit ds" and "sg = [] \<or> sg = ''+'' \<or> sg = ''-''"
    and "list_all js_space pre" and "list_all js_space post"
  shows "\<not> isNaN (pre @ sg @ ds @ post)"
proof -
  have "strip_sign (sg @ ds) = ds"
  proof (cases "sg = []")
    case True
    then show ?thesis by (simp add: strip_sign_digits [OF assms(1,2)])
  next
    case False
    with assms(3) show ?thesis by (auto simp add: strip_sign_def)
  qed
  then show ?thesis
    using digits_are_decimal_literal [OF assms(1,2)]
    by (simp add: isNaN_def string_numeric_literal_def trim_signed_digits [OF assms])
qed

lemma strip_sign_split: "\<exists>sg. (sg = [] \<or> sg = ''+'' \<or> sg = ''-'') \<and> t = sg @ strip_sign t"
  by (cases t) (auto simp add: strip_sign_def)

lemma int4in_numeric:
  assumes "int4in s = Some v"
  shows "s \<noteq> [] \<and> \<not> isNaN s"
proof -
  let ?t = "dropWhile pg_space s"
  let ?u = "strip_sign ?t"
  let ?ds = "takeWhile is_digit ?u"
  let ?rest = "dropWhile is_digit ?u"
  have ds: "?ds \<noteq> []" and rest: "list_all pg_space ?rest"
    using assms by (auto simp add: int4in_def Let_def split: if_splits)
  obtain sg where sg: "sg = [] \<or> sg = ''+'' \<or> sg = ''-''" and t: "?t = sg @ ?u"
    using strip_sign_split [of ?t] by blast
  have "s = takeWhile pg_space s @ ?t"
    by simp
  also have "\<dots> = takeWhile pg_space s @ sg @ ?ds @ ?rest"
    using t by simp
  finally have s: "s = takeWhile pg_space s @ sg @ ?ds @ ?rest" .
  have pre: "list_all js_space (takeWhile pg_space s)"
    by (auto simp add: list_all_iff dest: set_takeWhileD pg_space_js_space)
  have post: "list_all js_space ?rest"
    using rest by (auto simp add: list_all_iff dest: pg_space_js_space)
  have digits: "list_all is_digit ?ds"
    by (auto simp add: list_all_iff dest: set_takeWhileD)
  have "\<not> isNaN (takeWhile pg_space s @ sg @ ?ds @ ?rest)"
    using ds digits sg pre post by (rule signed_digits_numeric)
  then have "\<not> isNaN s"
    using s by simp
  moreover have "s \<noteq> []"
    using s ds by auto
  ultimately show ?thesis by simp
qed

lemma integer_syntax_numeric:
  assumes "integer_syntax s"
  shows "s \<noteq> [] \<and> \<not> isNaN s"
proof -
  obtain sg where sg: "sg = [] \<or> sg = ''+'' \<or> sg = ''-''" and s: "s = sg @ strip_sign s"
    using strip_sign_split [of s] by blast
  have "\<not> isNaN ([] @ sg @ strip_sign s @ [])"
    using assms sg by (intro signed_digits_numeric) (simp_all add: integer_syntax_def)
  then have "\<not> isNaN s"
    using s by simp
  moreover have "s \<noteq> []"
    using assms by (auto simp add: integer_syntax_def strip_sign_def)
  ultimately show ?thesis by simp
qed

section \<open>Numerals read back\<close>

lemma digit_char_is_digit: "d < 10 \<Longrightarrow> is_digit (digit_char d)"
proof -
  assume "d < 10"
  then have "d \<in> {0, 1, 2, 3, 4, 5, 6, 7, 8, 9}"
    by auto
  then show ?thesis
    by (auto simp add: digit_char_def is_digit_def)
qed

lemma digit_val_digit_char: "d < 10 \<Longrightarrow> digit_val (digit_char d) = int d"
proof -
  assume "d < 10"
  then have "d \<in> {0, 1, 2, 3, 4, 5, 6, 7, 8, 9}"
    by auto
  then show ?thesis
    by (auto simp add: digit_char_def digit_val_def)
qed

lemma dec_digits_digits: "list_all is_digit (dec_digits n)"
proof (induction n rule: dec_digits.induct)
  case (1 n)
  show ?case
  proof (cases "n < 10")
    case True
    then show ?thesis
      by (simp add: dec_digits.simps [of n] digit_char_is_digit)
  next
    case False
    with 1 show ?thesis
      by (simp add: dec_digits.simps [of n] digit_char_is_digit)
  qed
qed

lemma dec_digits_not_empty: "dec_digits n \<noteq> []"
  by (simp add: dec_digits.simps [of n])

lemma dec_value_snoc: "dec_value (ds @ [c]) = 10 * dec_value ds + digit_val c"
  by (simp add: dec_value_def)

lemma dec_value_dec_digits: "dec_value (dec_digits n) = int n"
proof (induction n rule: dec_digits.induct)
  case (1 n)
  show ?case
  proof (cases "n < 10")
    case True
    then show ?thesis
      by (simp add: dec_digits.simps [of n] dec_value_def digit_val_digit_char)
  next
    case False
    with 1 have "dec_value (dec_digits (n div 10)) = int (n div 10)"
      by simp
    moreover have "10 * int (n div 10) + int (n mod 10) = int n"
      by (simp add: zdiv_int zmod_int)
    ultimately show ?thesis
      using False by (simp add: dec_digits.simps [of n] dec_value_snoc digit_val_digit_char)
  qed
qed

lemma digits_no_radix_prefix:
  assumes "list_all is_digit u"
  shows "take 2 u \<noteq> ''0x''" and "take 2 u \<noteq> ''0X''"
proof -
  have x: "\<not> is_digit CHR ''x''" "\<not> is_digit CHR ''X''"
    by (simp_all add: is_digit_def)
  show "take 2 u \<noteq> ''0x''"
  proof
    assume "take 2 u = ''0x''"
    then have "CHR ''x'' \<in> set (take 2 u)" by simp
    then have "CHR ''x'' \<in> set u" by (rule in_set_takeD)
    with assms x show False by (auto simp add: list_all_iff)
  qed
  show "take 2 u \<noteq> ''0X''"
  proof
    assume "take 2 u = ''0X''"
    then have "CHR ''X'' \<in> set (take 2 u)" by simp
    then have "CHR ''X'' \<in> set u" by (rule in_set_takeD)
    with assms x show False by (auto simp add: list_all_iff)
  qed
qed

lemma parseInt_digits:
  assumes "ds \<noteq> []" and "list_all is_digit ds"
  shows "parseInt_string ds = Some (dec_value ds)"
    and "parseInt_string (CHR ''-'' # ds) = Some (- dec_value ds)"
proof -
  obtain c cs where ds: "ds = c # cs"
    using assms(1) by (cases ds) auto
  then have c: "is_digit c"
    using assms(2) by simp
  then have nsp: "\<not> js_space c" and nsg: "c \<noteq> CHR ''+''" "c \<noteq> CHR ''-''"
    using digit_not_space digit_not_sign by auto
  have tw: "takeWhile is_digit ds = ds"
    using assms(2) by (simp add: list_all_iff)
  have strip: "strip_sign ds = ds"
    using assms by (rule strip_sign_digits)
  have drop: "dropWhile js_space ds = ds"
    using nsp ds by simp
  have hd: "hd ds \<noteq> CHR ''-''"
    using nsg ds by simp
  show "parseInt_string ds = Some (dec_value ds)"
    unfolding parseInt_string_def Let_def drop strip
    using digits_no_radix_prefix [OF assms(2)] assms(1) hd by (simp add: tw)
  have drop': "dropWhile js_space (CHR ''-'' # ds) = CHR ''-'' # ds"
    by (simp add: sign_not_space)
  have strip': "strip_sign (CHR ''-'' # ds) = ds"
    by (simp add: strip_sign_def)
  show "parseInt_string (CHR ''-'' # ds) = Some (- dec_value ds)"
    unfolding parseInt_string_def Let_def drop' strip'
    using digits_no_radix_prefix [OF assms(2)] assms(1) by (simp add: tw)
qed

lemma parseInt_decimal: "parseInt_string (decimal n) = Some n"
proof (cases "n < 0")
  case True
  then show ?thesis
    using parseInt_digits(2) [OF dec_digits_not_empty dec_digits_digits, of "nat (- n)"]
    by (simp add: decimal_def dec_value_dec_digits)
next
  case False
  then show ?thesis
    using parseInt_digits(1) [OF dec_digits_not_empty dec_digits_digits, of "nat n"]
    by (simp add: decimal_def dec_value_dec_digits)
qed


lemma log2_floor_below: "a < 2 ^ Suc k \<Longrightarrow> log2_floor a \<le> k"
proof (induction k arbitrary: a)
  case 0
  then show ?case by (simp add: log2_floor.simps [of a])
next
  case (Suc k)
  show ?case
  proof (cases "a < 2")
    case True
    then show ?thesis by (simp add: log2_floor.simps [of a])
  next
    case False
    have "a div 2 < 2 ^ Suc k"
      using Suc.prems by auto
    then have "log2_floor (a div 2) \<le> k"
      by (rule Suc.IH)
    with False show ?thesis
      by (simp add: log2_floor.simps [of a])
  qed
qed

lemma to_double_exact:
  assumes "\<bar>n\<bar> < 2 ^ 53"
  shows "to_double n = n"
proof -
  have "nat \<bar>n\<bar> < 2 ^ Suc 52"
    using assms by (simp add: nat_less_iff)
  then have "log2_floor (nat \<bar>n\<bar>) \<le> 52"
    by (rule log2_floor_below)
  then show ?thesis
    by (simp add: to_double_def Let_def)
qed

lemma number_to_string_decimal:
  assumes "\<bar>n\<bar> < 2 ^ 53"
  shows "number_to_string n = decimal n"
proof -
  have "nat \<bar>n\<bar> < 2 ^ 53"
    using assms by (simp add: nat_less_iff)
  moreover have "(2::nat) ^ 53 < 2 ^ 1024"
    by (rule power_strict_increasing) simp_all
  moreover have "(2::nat) ^ 53 < 10 ^ 21"
    by simp
  ultimately have "nat \<bar>n\<bar> < 2 ^ 1024" "nat \<bar>n\<bar> < 10 ^ 21"
    by (blast intro: less_trans)+
  then show ?thesis
    by (simp add: number_to_string_def to_double_exact [OF assms] Let_def)
qed

lemma parseInt_number:
  assumes "\<bar>n\<bar> < 2 ^ 53"
  shows "parseInt (JNum n) = Some n"
  by (simp add: number_to_string_decimal [OF assms] parseInt_decimal)

lemma parseInt_int4: "in_int4 q \<Longrightarrow> parseInt (JNum q) = Some q"
  by (rule parseInt_number) (simp add: in_int4_def abs_less_iff)

text \<open>From \<^verbatim>\<open>1e21\<close> on the text of a number has an exponent, and \<^verbatim>\<open>parseInt\<close> reads its
  first digit only.\<close>

lemma log2_floor_1e21: "log2_floor 1000000000000000000000 = 69"
  by (simp add: log2_floor.simps)

lemma dec_digits_1e21: "dec_digits 1000000000000000000000 = ''1000000000000000000000''"
  by (simp add: dec_digits.simps digit_char_def)

lemma to_double_1e21: "to_double 1000000000000000000000 = 1000000000000000000000"
  by (simp add: to_double_def log2_floor_1e21 Let_def)

lemma reads_back_1e21: "reads_back 1000000000000000000000 1000000000000000000000" "\<not> reads_back 1000000000000000000000 2000000000000000000000"
  by (simp_all add: reads_back_def log2_floor_1e21 Let_def)

lemma shortest_at_1e21: "shortest_at 1000000000000000000000 21 = Some 1000000000000000000000"
  using reads_back_1e21 by (simp add: shortest_at_def Let_def)

lemma length_digits_1e21: "length (dec_digits 1000000000000000000000) = Suc 21"
  by (simp add: dec_digits_1e21)

lemma shortest_1e21: "shortest 1000000000000000000000 = 1000000000000000000000"
proof -
  have "[0..<length (dec_digits 1000000000000000000000)] = [0..<21] @ [21]"
    unfolding length_digits_1e21 by (rule upt_Suc_append) simp
  then have "rev [0..<length (dec_digits 1000000000000000000000)] = 21 # rev [0..<21]"
    by (simp only: rev_append rev.simps append.simps)
  then show ?thesis
    unfolding shortest_def by (simp add: shortest_at_1e21)
qed

lemma dec_digits_21: "dec_digits 21 = ''21''"
  by (simp add: dec_digits.simps [of 21] dec_digits.simps [of 2] digit_char_def)

lemma exponential_1e21: "exponential 1000000000000000000000 = ''1e+21''"
proof -
  have "length (dec_digits 1000000000000000000000) - 1 = 21"
    by (simp add: length_digits_1e21)
  then show ?thesis
    unfolding exponential_def shortest_1e21 Let_def by (simp add: dec_digits_21) (simp add: dec_digits_1e21)
qed

lemma number_to_string_1e21: "number_to_string 1000000000000000000000 = ''1e+21''"
proof -
  have "\<not> (2::nat) ^ 1024 \<le> 1000000000000000000000"
    by simp
  then show ?thesis
    by (simp add: number_to_string_def to_double_1e21 exponential_1e21 Let_def)
qed

lemma parseInt_1e21: "parseInt (JNum 1000000000000000000000) = Some 1"
  by (simp add: number_to_string_1e21 parseInt_string_def js_space_def strip_sign_def is_digit_def dec_value_def
      digit_val_def)

section \<open>What an update does when its query is answered\<close>

lemma put_save_invalid:
  assumes "\<not> update_valid req"
  shows "put_save e req d =
           \<lparr>response = Json 400 (Error missing_data), store = d, console = [], queries = 0\<rparr>"
  using assms by (auto simp add: put_save_def update_valid_def Let_def)

lemma update_refused:
  assumes "\<not> (db_up e 0 \<and> update_bound req)"
  shows "pool_query e 0
           (update_product (to_integer (body_code req)) (to_text (body_name req))
              (to_integer (body_quantity req)) (to_integer (JStr (param_id req)))
              (to_text (JStr (getSessionId req)))) d = (d, None)"
  using assms
  by (auto simp add: pool_query_def update_product_def update_bound_def session_text_def
      split: option.splits)

lemma update_ran:
  assumes "db_up e 0" and "to_integer (body_code req) = Some c"
    and "to_text (body_name req) = Some n" and "to_integer (body_quantity req) = Some q"
    and "int4in (param_id req) = Some i" and "session_text req"
  shows "pool_query e 0
           (update_product (to_integer (body_code req)) (to_text (body_name req))
              (to_integer (body_quantity req)) (to_integer (JStr (param_id req)))
              (to_text (JStr (getSessionId req)))) d
         = (d\<lparr>rows := map (overwrite i (getSessionId req) c n q) (rows d)\<rparr>,
            Some (length (filter (owned i (getSessionId req)) (rows d))))"
proof -
  have "(\<lambda>r. if owned i (getSessionId req) r then r\<lparr>code := c, name := n, quantity := q\<rparr> else r)
          = overwrite i (getSessionId req) c n q"
    by (rule ext) (simp add: overwrite_def)
  then show ?thesis
    using assms by (simp add: pool_query_def update_product_def session_text_def)
qed

lemma put_save_refused:
  assumes "update_valid req" and "\<not> (db_up e 0 \<and> update_bound req)"
  shows "put_save e req d =
           \<lparr>response = Json 500 (Error internal_error), store = d,
            console = [''Error al actualizar:''], queries = 1\<rparr>"
  using assms(1) unfolding put_save_def Let_def update_refused [OF assms(2)]
  by (simp add: update_valid_def)

lemma put_save_ran:
  assumes "update_valid req" and "db_up e 0" and "to_integer (body_code req) = Some c"
    and "to_text (body_name req) = Some n" and "to_integer (body_quantity req) = Some q"
    and "int4in (param_id req) = Some i" and "session_text req"
  shows "put_save e req d =
           \<lparr>response = (if filter (owned i (getSessionId req)) (rows d) = []
                        then Json 404 (Error ''Registro no encontrado'')
                        else Json 200 (Message ''Registro actualizado exitosamente'')),
            store = d\<lparr>rows := map (overwrite i (getSessionId req) c n q) (rows d)\<rparr>,
            console = [], queries = 1\<rparr>"
  using assms(1) unfolding put_save_def Let_def update_ran [OF assms(2-7)]
  by (simp add: update_valid_def)

lemma update_bound_obtain:
  assumes "update_bound req"
  obtains c n q i where "to_integer (body_code req) = Some c" "to_text (body_name req) = Some n"
    "to_integer (body_quantity req) = Some q" "int4in (param_id req) = Some i" "session_text req"
  using assms by (auto simp add: update_bound_def)

lemma owned_unique:
  assumes "distinct (map row_id rs)" and "r \<in> set rs" and "r' \<in> set rs"
    and "row_id r = row_id r'"
  shows "r = r'"
  using assms by (meson distinct_map inj_on_def)

lemma overwrite_fixed:
  "row_id (overwrite i s c n q r) = row_id r"
  "session_id (overwrite i s c n q r) = session_id r"
  "created_at (overwrite i s c n q r) = created_at r"
  "\<not> owned i s r \<Longrightarrow> overwrite i s c n q r = r"
  "owned i s r \<Longrightarrow> overwrite i s c n q r = r\<lparr>code := c, name := n, quantity := q\<rparr>"
  by (simp_all add: overwrite_def)

section \<open>What an update changes\<close>

text \<open>
  Claim C8. When \<^verbatim>\<open>PUT /save/:id\<close> answers with success, the store holds a row with the
  given id and the session of the request, and no second one; the rows afterwards are
  the rows before, in place, that row with its code, name and quantity replaced by the
  values sent and every other row as it was; the id, the session and the creation time
  of every row, the number of rows and the sequence of ids are unchanged.
\<close>

theorem update_overwrites_three_fields:
  assumes "wf_db d"
    and "response (put_save e req d) = Json 200 (Message ''Registro actualizado exitosamente'')"
  shows "\<exists>i c n q r.
           int4in (param_id req) = Some i \<and> to_integer (body_code req) = Some c
         \<and> to_text (body_name req) = Some n \<and> to_integer (body_quantity req) = Some q
         \<and> filter (owned i (getSessionId req)) (rows d) = [r]
         \<and> rows (store (put_save e req d)) = map (overwrite i (getSessionId req) c n q) (rows d)
         \<and> overwrite i (getSessionId req) c n q r = r\<lparr>code := c, name := n, quantity := q\<rparr>
         \<and> list_all (\<lambda>x. x \<noteq> r \<longrightarrow> overwrite i (getSessionId req) c n q x = x) (rows d)
         \<and> map row_id (rows (store (put_save e req d))) = map row_id (rows d)
         \<and> map session_id (rows (store (put_save e req d))) = map session_id (rows d)
         \<and> map created_at (rows (store (put_save e req d))) = map created_at (rows d)
         \<and> next_id (store (put_save e req d)) = next_id d"
proof -
  have valid: "update_valid req"
    using assms(2) by (cases "update_valid req") (simp_all add: put_save_invalid)
  have "db_up e 0 \<and> update_bound req"
  proof (rule ccontr)
    assume "\<not> (db_up e 0 \<and> update_bound req)"
    from put_save_refused [OF valid this, of d] assms(2) show False
      by simp
  qed
  then have up: "db_up e 0" and bound: "update_bound req"
    by simp_all
  from bound obtain c n q i where b: "to_integer (body_code req) = Some c"
      "to_text (body_name req) = Some n" "to_integer (body_quantity req) = Some q"
      "int4in (param_id req) = Some i" "session_text req"
    by (rule update_bound_obtain)
  let ?s = "getSessionId req"
  note ran = put_save_ran [OF valid up b, of d]
  have hit: "filter (owned i ?s) (rows d) \<noteq> []"
    using assms(2) ran by (auto split: if_splits)
  then obtain r rs where f: "filter (owned i ?s) (rows d) = r # rs"
    by (cases "filter (owned i ?s) (rows d)") auto
  have d: "distinct (map row_id (rows d))"
    using assms(1) by (simp add: wf_db_def)
  have "distinct (map row_id (filter (owned i ?s) (rows d)))"
    using d by (rule distinct_map_filter)
  then have dis: "distinct (map row_id (r # rs))"
    by (simp only: f)
  have same: "row_id x = i" if "x \<in> set (r # rs)" for x
  proof -
    from that have "x \<in> set (filter (owned i ?s) (rows d))"
      by (simp only: f)
    then show ?thesis by (simp add: owned_def)
  qed
  have "rs = []"
  proof (cases rs)
    case Nil
    then show ?thesis .
  next
    case (Cons r' rs')
    then have "row_id r = row_id r'"
      using same [of r] same [of r'] by simp
    moreover have "row_id r \<noteq> row_id r'"
      using dis Cons by simp
    ultimately show ?thesis by simp
  qed
  with f have one: "filter (owned i ?s) (rows d) = [r]"
    by simp
  have "r \<in> set (filter (owned i ?s) (rows d))"
    by (simp only: one) simp
  then have r: "r \<in> set (rows d)" "owned i ?s r"
    by simp_all
  have others: "list_all (\<lambda>x. x \<noteq> r \<longrightarrow> overwrite i ?s c n q x = x) (rows d)"
  proof -
    have "overwrite i ?s c n q x = x" if "x \<in> set (rows d)" "x \<noteq> r" for x
    proof -
      have "\<not> owned i ?s x"
        using owned_unique [OF d that(1) r(1)] that(2) r(2) by (auto simp: owned_def)
      then show ?thesis by (simp add: overwrite_fixed)
    qed
    then show ?thesis by (auto simp: list_all_iff)
  qed
  have st: "store (put_save e req d) = d\<lparr>rows := map (overwrite i ?s c n q) (rows d)\<rparr>"
    by (simp add: ran)
  have fields: "row_id \<circ> overwrite i ?s c n q = row_id"
    "session_id \<circ> overwrite i ?s c n q = session_id"
    "created_at \<circ> overwrite i ?s c n q = created_at"
    by (auto simp: overwrite_fixed)
  show ?thesis
    using b one others r(2) by (auto simp add: st fields overwrite_fixed)
qed

text \<open>The update of the record 2 by its session, in the store of three records.\<close>

lemma wf_db_three: "wf_db db_three"
  by (simp add: wf_db_def db_three_def widget_def)

lemma put_save_s1_three:
  "put_save env_ok req_s1 db_three =
     \<lparr>response = Json 200 (Message ''Registro actualizado exitosamente''),
      store = db_three\<lparr>rows := [widget 1 3 ''s1'', widget 2 5 ''s1'', widget 3 6 ''s2'']\<rparr>,
      console = [], queries = 1\<rparr>"
proof -
  have v: "update_valid req_s1"
    by (simp add: update_valid_def req_s1_def)
  have b: "to_integer (body_code req_s1) = Some 1001" "to_text (body_name req_s1) = Some ''Widget''"
    "to_integer (body_quantity req_s1) = Some 5" "int4in (param_id req_s1) = Some 2"
    "session_text req_s1"
    by (simp_all add: req_s1_def in_int4_def int4in_def pg_space_def strip_sign_def is_digit_def
        dec_value_def digit_val_def session_text_def getSessionId_def)
  show ?thesis
    unfolding put_save_ran [OF v env_ok_simps(1) b]
    by (simp add: db_three_def widget_def overwrite_def owned_def getSessionId_def req_s1_def)
qed

theorem update_overwrites_three_fields_witness:
  "wf_db db_three
   \<and> response (put_save env_ok req_s1 db_three)
       = Json 200 (Message ''Registro actualizado exitosamente'')
   \<and> rows (store (put_save env_ok req_s1 db_three))
       = [widget 1 3 ''s1'', widget 2 5 ''s1'', widget 3 6 ''s2'']
   \<and> map row_id (rows (store (put_save env_ok req_s1 db_three))) = map row_id (rows db_three)
   \<and> next_id (store (put_save env_ok req_s1 db_three)) = next_id db_three"
proof -
  have h: "wf_db db_three"
    "response (put_save env_ok req_s1 db_three)
       = Json 200 (Message ''Registro actualizado exitosamente'')"
    by (simp_all add: wf_db_three put_save_s1_three)
  from update_overwrites_three_fields [OF h]
  have "map row_id (rows (store (put_save env_ok req_s1 db_three))) = map row_id (rows db_three)
        \<and> next_id (store (put_save env_ok req_s1 db_three)) = next_id db_three"
    by blast
  with h show ?thesis
    by (simp add: put_save_s1_three)
qed

section \<open>What the other handlers do when their query is answered\<close>

lemma delete_delete_invalid:
  assumes "\<not> delete_valid req"
  shows "delete_delete e req d =
           \<lparr>response = Json 400 (Error invalid_id), store = d, console = [], queries = 0\<rparr>"
  using assms by (auto simp add: delete_delete_def delete_valid_def Let_def)

lemma delete_refused:
  assumes "\<not> (db_up e 0 \<and> int4in (param_id req) \<noteq> None \<and> session_text req)"
  shows "pool_query e 0
           (delete_product (to_integer (JStr (param_id req))) (to_text (JStr (getSessionId req)))) d
         = (d, None)"
  using assms
  by (auto simp add: pool_query_def delete_product_def session_text_def split: option.splits)

lemma delete_ran:
  assumes "db_up e 0" and "int4in (param_id req) = Some i" and "session_text req"
  shows "pool_query e 0
           (delete_product (to_integer (JStr (param_id req))) (to_text (JStr (getSessionId req)))) d
         = (d\<lparr>rows := filter (\<lambda>r. \<not> owned i (getSessionId req) r) (rows d)\<rparr>,
            Some (length (filter (owned i (getSessionId req)) (rows d))))"
  using assms by (simp add: pool_query_def delete_product_def session_text_def)

lemma delete_delete_refused:
  assumes "delete_valid req"
    and "\<not> (db_up e 0 \<and> int4in (param_id req) \<noteq> None \<and> session_text req)"
  shows "delete_delete e req d =
           \<lparr>response = Json 500 (Error internal_error), store = d,
            console = [''Error al eliminar:''], queries = 1\<rparr>"
  using assms(1) unfolding delete_delete_def Let_def delete_refused [OF assms(2)]
  by (simp add: delete_valid_def)

lemma delete_delete_ran:
  assumes "db_up e 0" and "int4in (param_id req) = Some i" and "session_text req"
  shows "delete_delete e req d =
           \<lparr>response = (if filter (owned i (getSessionId req)) (rows d) = []
                        then Json 404 (Error not_found_or_foreign)
                        else Json 200 (Message ''Registro eliminado exitosamente'')),
            store = d\<lparr>rows := filter (\<lambda>r. \<not> owned i (getSessionId req) r) (rows d)\<rparr>,
            console = [], queries = 1\<rparr>"
  using int4in_numeric [OF assms(2)] unfolding delete_delete_def Let_def delete_ran [OF assms]
  by simp

lemma post_save_invalid:
  assumes "\<not> save_valid req"
  shows "post_save e req d =
           \<lparr>response = Json 400 (Error missing_data), store = d, console = [], queries = 0\<rparr>"
  using assms by (auto simp add: post_save_def save_valid_def Let_def)

lemma insert_ran:
  assumes "db_up e 0" and "session_text req" and "in_int4 (next_id d)"
  shows "pool_query e 0
           (insert_product (now e) (Some c) (Some n) (Some q) (to_text (JStr (getSessionId req)))) d
         = (d\<lparr>rows := rows d @ [new_row e req c n q d], next_id := next_id d + 1\<rparr>,
            Some (next_id d))"
  using assms by (simp add: pool_query_def insert_product_def session_text_def new_row_def)

lemma insert_refused:
  assumes "\<not> (db_up e 0 \<and> c \<noteq> None \<and> n \<noteq> None \<and> q \<noteq> None \<and> session_text req
              \<and> in_int4 (next_id d))"
  shows "pool_query e 0 (insert_product t c n q (to_text (JStr (getSessionId req)))) d = (d, None)"
  using assms
  by (auto simp add: pool_query_def insert_product_def session_text_def split: option.splits)

lemma post_save_ran:
  assumes "save_valid req" and "db_up e 0" and "session_text req" and "in_int4 (next_id d)"
    and "to_integer (body_code req) = Some c" and "to_text (body_name req) = Some n"
    and "to_integer (body_quantity req) = Some q"
  shows "post_save e req d =
           \<lparr>response = Json 200 (MessageId ''Registro guardado exitosamente'' (next_id d)),
            store = d\<lparr>rows := rows d @ [new_row e req c n q d], next_id := next_id d + 1\<rparr>,
            console = [], queries = 1\<rparr>"
  using assms(1) unfolding post_save_def Let_def assms(5-7) insert_ran [OF assms(2-4)]
  by (simp add: save_valid_def)

lemma post_save_refused:
  assumes "save_valid req"
    and "\<not> (db_up e 0 \<and> to_integer (body_code req) \<noteq> None \<and> to_text (body_name req) \<noteq> None
            \<and> to_integer (body_quantity req) \<noteq> None \<and> session_text req \<and> in_int4 (next_id d))"
  shows "post_save e req d =
           \<lparr>response = Json 500 (Error internal_error), store = d,
            console = [''Error al guardar:''], queries = 1\<rparr>"
  using assms(1) unfolding post_save_def Let_def insert_refused [OF assms(2)]
  by (simp add: save_valid_def)

lemma get_records_rows:
  "response (get_records e req d) = Json 200 (RowArray rs) \<Longrightarrow>
     rs = records_of (getSessionId req) d"
  by (auto simp add: get_records_def pool_query_def select_session_def records_of_def Let_def
      split: option.splits if_splits)

lemma get_export_reads_session:
  assumes "records_of (getSessionId req) d = records_of (getSessionId req) d'"
  shows "response (get_export e req d) = response (get_export e req d')"
proof (cases "db_up e 0 \<and> xlsx_ok e \<and> session_text req")
  case True
  then show ?thesis
    using assms by (simp add: get_export_sent)
next
  case False
  then have "get_export e req d = report_failed d 1" "get_export e req d' = report_failed d' 1"
    by (auto simp add: get_export_def pool_query_def select_totals_def session_text_def Let_def
        split: option.splits)
  then show ?thesis
    by (simp add: report_failed_def)
qed

lemma get_export_keeps_others:
  assumes "r \<in> set (rows d)" and "session_id r \<noteq> getSessionId req"
  shows "r \<in> set (rows (store (get_export e req d)))"
proof (cases "db_up e 0 \<and> xlsx_ok e \<and> session_text req \<and> db_up e 1")
  case True
  then show ?thesis
    using assms by (simp add: get_export_purged)
next
  case False
  then have "store (get_export e req d) = d"
    by (auto simp add: get_export_def pool_query_def select_totals_def delete_session_def
        session_text_def report_failed_def Let_def split: option.splits)
  then show ?thesis
    using assms(1) by simp
qed

lemma put_save_outcomes:
  obtains
    (invalid) "\<not> update_valid req"
      "put_save e req d =
         \<lparr>response = Json 400 (Error missing_data), store = d, console = [], queries = 0\<rparr>"
  | (refused) "update_valid req" "\<not> (db_up e 0 \<and> update_bound req)"
      "put_save e req d =
         \<lparr>response = Json 500 (Error internal_error), store = d,
          console = [''Error al actualizar:''], queries = 1\<rparr>"
  | (ran) c n q i where "update_valid req" "db_up e 0" "update_bound req"
      "int4in (param_id req) = Some i"
      "put_save e req d =
         \<lparr>response = (if filter (owned i (getSessionId req)) (rows d) = []
                      then Json 404 (Error ''Registro no encontrado'')
                      else Json 200 (Message ''Registro actualizado exitosamente'')),
          store = d\<lparr>rows := map (overwrite i (getSessionId req) c n q) (rows d)\<rparr>,
          console = [], queries = 1\<rparr>"
proof (cases "update_valid req")
  case False
  then show ?thesis by (rule invalid) (rule put_save_invalid [OF False])
next
  case valid: True
  show ?thesis
  proof (cases "db_up e 0 \<and> update_bound req")
    case False
    show ?thesis by (rule refused [OF valid False]) (rule put_save_refused [OF valid False])
  next
    case True
    then have up: "db_up e 0" and bound: "update_bound req" by simp_all
    from bound obtain c n q i where b: "to_integer (body_code req) = Some c"
      "to_text (body_name req) = Some n" "to_integer (body_quantity req) = Some q"
      "int4in (param_id req) = Some i" "session_text req"
      by (rule update_bound_obtain)
    show ?thesis
      by (rule ran [OF valid up bound b(4)]) (rule put_save_ran [OF valid up b])
  qed
qed

lemma delete_delete_outcomes:
  obtains
    (invalid) "\<not> delete_valid req"
      "delete_delete e req d =
         \<lparr>response = Json 400 (Error invalid_id), store = d, console = [], queries = 0\<rparr>"
  | (refused) "delete_valid req"
      "\<not> (db_up e 0 \<and> int4in (param_id req) \<noteq> None \<and> session_text req)"
      "delete_delete e req d =
         \<lparr>response = Json 500 (Error internal_error), store = d,
          console = [''Error al eliminar:''], queries = 1\<rparr>"
  | (ran) i where "delete_valid req" "db_up e 0" "session_text req"
      "int4in (param_id req) = Some i"
      "delete_delete e req d =
         \<lparr>response = (if filter (owned i (getSessionId req)) (rows d) = []
                      then Json 404 (Error not_found_or_foreign)
                      else Json 200 (Message ''Registro eliminado exitosamente'')),
          store = d\<lparr>rows := filter (\<lambda>r. \<not> owned i (getSessionId req) r) (rows d)\<rparr>,
          console = [], queries = 1\<rparr>"
proof (cases "delete_valid req")
  case False
  then show ?thesis by (rule invalid) (rule delete_delete_invalid [OF False])
next
  case valid: True
  show ?thesis
  proof (cases "db_up e 0 \<and> int4in (param_id req) \<noteq> None \<and> session_text req")
    case False
    show ?thesis
      by (rule refused [OF valid False]) (rule delete_delete_refused [OF valid False])
  next
    case True
    then obtain i where b: "db_up e 0" "int4in (param_id req) = Some i" "session_text req"
      by auto
    show ?thesis
      by (rule ran [OF valid b(1,3,2)]) (rule delete_delete_ran [OF b])
  qed
qed

lemma foreign_not_owned:
  assumes "distinct (map row_id (rows d))" and "r \<in> set (rows d)" and "session_id r \<noteq> s"
  shows "filter (owned (row_id r) s) (rows d) = []"
proof -
  have "\<not> owned (row_id r) s x" if "x \<in> set (rows d)" for x
  proof
    assume "owned (row_id r) s x"
    then have "row_id x = row_id r" and "session_id x = s"
      by (simp_all add: owned_def)
    with owned_unique [OF assms(1) that assms(2)] assms(3) show False
      by simp
  qed
  then show ?thesis
    by (simp add: filter_empty_conv)
qed

lemma nothing_owned_no_change:
  assumes "filter (owned i s) (rows d) = []"
  shows "d\<lparr>rows := map (overwrite i s c n q) (rows d)\<rparr> = d"
    and "d\<lparr>rows := filter (\<lambda>r. \<not> owned i s r) (rows d)\<rparr> = d"
proof -
  have none: "\<forall>x\<in>set (rows d). \<not> owned i s x"
    using assms by (simp add: filter_empty_conv)
  then have "map (overwrite i s c n q) (rows d) = rows d"
    by (simp add: map_idI overwrite_fixed)
  then show "d\<lparr>rows := map (overwrite i s c n q) (rows d)\<rparr> = d"
    by simp
  from none have "filter (\<lambda>r. \<not> owned i s r) (rows d) = rows d"
    by simp
  then show "d\<lparr>rows := filter (\<lambda>r. \<not> owned i s r) (rows d)\<rparr> = d"
    by simp
qed

lemma put_save_keeps_others:
  assumes "r \<in> set (rows d)" and "session_id r \<noteq> getSessionId req"
  shows "r \<in> set (rows (store (put_save e req d)))"
proof (cases e req d rule: put_save_outcomes)
  case (ran c n q i)
  have "overwrite i (getSessionId req) c n q r = r"
    using assms(2) by (simp add: overwrite_def owned_def)
  then have "r \<in> overwrite i (getSessionId req) c n q ` set (rows d)"
    using assms(1) by (metis imageI)
  then show ?thesis
    by (simp add: ran(5))
qed (simp_all add: assms(1))

lemma delete_delete_keeps_others:
  assumes "r \<in> set (rows d)" and "session_id r \<noteq> getSessionId req"
  shows "r \<in> set (rows (store (delete_delete e req d)))"
proof (cases e req d rule: delete_delete_outcomes)
  case (ran i)
  then show ?thesis
    using assms by (simp add: owned_def)
qed (simp_all add: assms(1))

section \<open>Sessions do not see or touch each other's records\<close>

text \<open>
  Claim C3. Let a record belong to a session other than the one of the request, in a
  store whose ids are a primary key. Then \<^verbatim>\<open>GET /records\<close> does not return it;
  \<^verbatim>\<open>GET /export\<close> sends what it would send were the record not in the store, and its
  purge leaves the record; \<^verbatim>\<open>PUT /save/:id\<close> and \<^verbatim>\<open>DELETE /delete/:id\<close> leave the record.
  When the id of the request is the id of that record, the update and the deletion
  leave the whole store as it was and never answer with success: the answer is 404
  whenever the request passes the validation and the store runs the statement, and
  otherwise the 400 of the validation or the 500 of a failing store.
\<close>

theorem cross_session_isolation:
  assumes "wf_db d" and "r \<in> set (rows d)" and "session_id r \<noteq> getSessionId req"
  shows "(\<forall>rs. response (get_records e req d) = Json 200 (RowArray rs) \<longrightarrow> r \<notin> set rs)
       \<and> response (get_export e req (d\<lparr>rows := removeAll r (rows d)\<rparr>))
           = response (get_export e req d)
       \<and> r \<in> set (rows (store (get_export e req d)))
       \<and> r \<in> set (rows (store (put_save e req d)))
       \<and> r \<in> set (rows (store (delete_delete e req d)))
       \<and> (int4in (param_id req) = Some (row_id r) \<longrightarrow>
             store (put_save e req d) = d \<and> store (delete_delete e req d) = d
           \<and> response (put_save e req d) \<in>
               {Json 400 (Error missing_data), Json 404 (Error ''Registro no encontrado''),
                Json 500 (Error internal_error)}
           \<and> response (delete_delete e req d) \<in>
               {Json 404 (Error not_found_or_foreign), Json 500 (Error internal_error)}
           \<and> (update_valid req \<and> update_bound req \<and> db_up e 0 \<longrightarrow>
                 response (put_save e req d) = Json 404 (Error ''Registro no encontrado''))
           \<and> (session_text req \<and> db_up e 0 \<longrightarrow>
                 response (delete_delete e req d) = Json 404 (Error not_found_or_foreign)))"
proof (intro conjI allI impI)
  let ?s = "getSessionId req"
  have pk: "distinct (map row_id (rows d))"
    using assms(1) by (simp add: wf_db_def)
  show "r \<notin> set rs" if "response (get_records e req d) = Json 200 (RowArray rs)" for rs
    using get_records_rows [OF that] assms(3) by (simp add: records_of_def)
  have "records_of ?s (d\<lparr>rows := removeAll r (rows d)\<rparr>) = records_of ?s d"
    using assms(3) by (auto simp add: records_of_def removeAll_filter_not_eq intro: filter_cong)
  then show "response (get_export e req (d\<lparr>rows := removeAll r (rows d)\<rparr>))
               = response (get_export e req d)"
    by (rule get_export_reads_session)
  show "r \<in> set (rows (store (get_export e req d)))"
    using assms(2,3) by (rule get_export_keeps_others)
  show "r \<in> set (rows (store (put_save e req d)))"
    using assms(2,3) by (rule put_save_keeps_others)
  show "r \<in> set (rows (store (delete_delete e req d)))"
    using assms(2,3) by (rule delete_delete_keeps_others)
next
  let ?s = "getSessionId req"
  assume target: "int4in (param_id req) = Some (row_id r)"
  have pk: "distinct (map row_id (rows d))"
    using assms(1) by (simp add: wf_db_def)
  have none: "filter (owned (row_id r) ?s) (rows d) = []"
    using pk assms(2,3) by (rule foreign_not_owned)
  show "store (put_save e req d) = d"
    by (cases e req d rule: put_save_outcomes)
      (use target none in \<open>simp_all add: nothing_owned_no_change\<close>)
  show "store (delete_delete e req d) = d"
    by (cases e req d rule: delete_delete_outcomes)
      (use target none in \<open>simp_all add: nothing_owned_no_change\<close>)
  show "response (put_save e req d) \<in>
          {Json 400 (Error missing_data), Json 404 (Error ''Registro no encontrado''),
           Json 500 (Error internal_error)}"
    by (cases e req d rule: put_save_outcomes) (use target none in simp_all)
  show "response (delete_delete e req d) \<in>
          {Json 404 (Error not_found_or_foreign), Json 500 (Error internal_error)}"
  proof (cases e req d rule: delete_delete_outcomes)
    case invalid
    with int4in_numeric [OF target] show ?thesis
      by (simp add: delete_valid_def)
  qed (use target none in simp_all)
  show "response (put_save e req d) = Json 404 (Error ''Registro no encontrado'')"
    if "update_valid req \<and> update_bound req \<and> db_up e 0"
    by (cases e req d rule: put_save_outcomes) (use that target none in simp_all)
  show "response (delete_delete e req d) = Json 404 (Error not_found_or_foreign)"
    if "session_text req \<and> db_up e 0"
    using that target none by (simp add: delete_delete_ran)
qed

theorem cross_session_isolation_witness:
  "wf_db db_three \<and> widget 1 3 ''s1'' \<in> set (rows db_three)
   \<and> session_id (widget 1 3 ''s1'') \<noteq> getSessionId req_s2_guess
   \<and> int4in (param_id req_s2_guess) = Some (row_id (widget 1 3 ''s1''))
   \<and> update_valid req_s2_guess \<and> update_bound req_s2_guess \<and> db_up env_ok 0
   \<and> session_text req_s2_guess
   \<and> response (get_records env_ok req_s2_guess db_three) = Json 200 (RowArray [widget 3 6 ''s2''])
   \<and> store (put_save env_ok req_s2_guess db_three) = db_three
   \<and> store (delete_delete env_ok req_s2_guess db_three) = db_three
   \<and> response (put_save env_ok req_s2_guess db_three)
       = Json 404 (Error ''Registro no encontrado'')
   \<and> response (delete_delete env_ok req_s2_guess db_three)
       = Json 404 (Error not_found_or_foreign)"
proof -
  have s: "getSessionId req_s2_guess = ''s2''" "session_text req_s2_guess"
    by (simp_all add: req_s2_guess_def req_s2_def getSessionId_def session_text_def)
  have h: "wf_db db_three" "widget 1 3 ''s1'' \<in> set (rows db_three)"
    "session_id (widget 1 3 ''s1'') \<noteq> getSessionId req_s2_guess"
    by (simp_all add: wf_db_three s) (simp_all add: db_three_def widget_def)
  have t: "int4in (param_id req_s2_guess) = Some (row_id (widget 1 3 ''s1''))"
    by (simp add: req_s2_guess_def req_s2_def widget_def int4in_def pg_space_def strip_sign_def
        is_digit_def dec_value_def digit_val_def in_int4_def)
  have v: "update_valid req_s2_guess" "update_bound req_s2_guess"
    using t s(2)
    by (simp_all add: update_valid_def update_bound_def)
      (simp_all add: req_s2_guess_def req_s2_def in_int4_def)
  have l: "response (get_records env_ok req_s2_guess db_three)
             = Json 200 (RowArray [widget 3 6 ''s2''])"
    by (simp add: get_records_ok env_ok_simps s records_of_def db_three_def widget_def)
  show ?thesis
    using h t v s l env_ok_simps(1) [of 0] cross_session_isolation [OF h, of env_ok]
    by simp
qed

section \<open>The store stays well formed\<close>

lemma wf_db_empty: "wf_db db_empty"
  by (simp add: wf_db_def db_empty_def)

lemma wf_db_insert:
  assumes "wf_db d" and "row_id r = next_id d"
  shows "wf_db (d\<lparr>rows := rows d @ [r], next_id := next_id d + 1\<rparr>)"
proof -
  have below: "\<forall>x\<in>set (rows d). row_id x < next_id d"
    using assms(1) by (simp add: wf_db_def list_all_iff)
  then have "row_id r \<notin> row_id ` set (rows d)"
    using assms(2) by auto
  moreover have "\<forall>x\<in>set (rows d). row_id x < next_id d + 1"
    using below by auto
  ultimately show ?thesis
    using assms by (simp add: wf_db_def list_all_iff)
qed

lemma wf_db_overwrite:
  assumes "wf_db d"
  shows "wf_db (d\<lparr>rows := map (overwrite i s c n q) (rows d)\<rparr>)"
proof -
  have "row_id \<circ> overwrite i s c n q = row_id"
    by (auto simp add: overwrite_fixed)
  then show ?thesis
    using assms by (simp add: wf_db_def list_all_iff overwrite_fixed)
qed

lemma wf_db_filter:
  assumes "wf_db d"
  shows "wf_db (d\<lparr>rows := filter P (rows d)\<rparr>)"
  using assms by (simp add: wf_db_def list_all_iff distinct_map_filter)

lemma post_save_outcomes:
  obtains
    (invalid) "\<not> save_valid req"
      "post_save e req d =
         \<lparr>response = Json 400 (Error missing_data), store = d, console = [], queries = 0\<rparr>"
  | (refused) "save_valid req"
      "post_save e req d =
         \<lparr>response = Json 500 (Error internal_error), store = d,
          console = [''Error al guardar:''], queries = 1\<rparr>"
  | (ran) c n q where "save_valid req" "to_integer (body_code req) = Some c"
      "to_text (body_name req) = Some n" "to_integer (body_quantity req) = Some q"
      "post_save e req d =
         \<lparr>response = Json 200 (MessageId ''Registro guardado exitosamente'' (next_id d)),
          store = d\<lparr>rows := rows d @ [new_row e req c n q d], next_id := next_id d + 1\<rparr>,
          console = [], queries = 1\<rparr>"
proof (cases "save_valid req")
  case False
  then show ?thesis by (rule invalid) (rule post_save_invalid [OF False])
next
  case valid: True
  show ?thesis
  proof (cases "db_up e 0 \<and> to_integer (body_code req) \<noteq> None \<and> to_text (body_name req) \<noteq> None
            \<and> to_integer (body_quantity req) \<noteq> None \<and> session_text req \<and> in_int4 (next_id d)")
    case False
    show ?thesis by (rule refused [OF valid]) (rule post_save_refused [OF valid False])
  next
    case True
    then obtain c n q where b: "db_up e 0" "session_text req" "in_int4 (next_id d)"
      "to_integer (body_code req) = Some c" "to_text (body_name req) = Some n"
      "to_integer (body_quantity req) = Some q"
      by auto
    show ?thesis
      by (rule ran [OF valid b(4-6)]) (rule post_save_ran [OF valid b])
  qed
qed

lemma wf_db_post_save: "wf_db d \<Longrightarrow> wf_db (store (post_save e req d))"
  by (cases e req d rule: post_save_outcomes) (simp_all add: wf_db_insert new_row_def)

lemma wf_db_put_save: "wf_db d \<Longrightarrow> wf_db (store (put_save e req d))"
  by (cases e req d rule: put_save_outcomes) (simp_all add: wf_db_overwrite)

lemma wf_db_delete_delete: "wf_db d \<Longrightarrow> wf_db (store (delete_delete e req d))"
  by (cases e req d rule: delete_delete_outcomes) (simp_all add: wf_db_filter)

lemma wf_db_get_export: "wf_db d \<Longrightarrow> wf_db (store (get_export e req d))"
  by (auto simp add: get_export_def pool_query_def select_totals_def delete_session_def
      report_failed_def wf_db_filter Let_def split: option.splits)

lemma reads_keep_store: "store (get_records e req d) = d" "store (get_recover e req d) = d"
  by (simp_all add: get_records_def get_recover_def pool_query_def select_session_def Let_def
      split: option.splits)

lemma wf_db_post_save_part_000:
  assumes "wf_db d"
  shows "wf_db (store (post_save_part_000 e req d))"
proof -
  have "wf_db (d\<lparr>rows := rows d @ [\<lparr>row_id = next_id d, code = c, name = n, quantity = q,
                                      session_id = s, created_at = t\<rparr>],
                  next_id := next_id d + 1\<rparr>)" for c n q s t
    using assms by (rule wf_db_insert) simp
  then show ?thesis
    using assms
    by (simp add: post_save_part_000_def pool_query_def insert_product_def Let_def
        split: option.splits)
qed

lemma next_id_post_save: "next_id d \<le> next_id (store (post_save e req d))"
  by (cases e req d rule: post_save_outcomes) simp_all

section \<open>Create, then list\<close>

text \<open>
  Claim C4, as the claim states it, fails in \<^verbatim>\<open>server.js\<close> at the input of the
  specification's own scenario: the column \<^verbatim>\<open>code\<close> is an \<^verbatim>\<open>INTEGER\<close> there, so for the
  code \<^verbatim>\<open>ABC1\<close>, the name \<^verbatim>\<open>Widget\<close> and the quantity 5 the store refuses the statement,
  the answer is 500, and the list of the session holds no such record.
\<close>

theorem create_refuses_text_code:
  "body_code req_ABC1 = JStr ''ABC1'' \<and> body_name req_ABC1 = JStr ''Widget''
   \<and> body_quantity req_ABC1 = JNum 5
   \<and> response (post_save env_ok req_ABC1 db_empty) = Json 500 (Error internal_error)
   \<and> store (post_save env_ok req_ABC1 db_empty) = db_empty
   \<and> response (get_records env_ok req_ABC1 (store (post_save env_ok req_ABC1 db_empty)))
       = Json 200 (RowArray [])"
proof -
  have v: "save_valid req_ABC1"
    by (simp add: save_valid_def req_ABC1_def)
  have "to_integer (body_code req_ABC1) = None"
    by (simp add: req_ABC1_def int4in_def pg_space_def strip_sign_def is_digit_def)
  then have "post_save env_ok req_ABC1 (db_empty :: int db) =
           \<lparr>response = Json 500 (Error internal_error), store = db_empty,
            console = [''Error al guardar:''], queries = 1\<rparr>"
    by (intro post_save_refused [OF v]) simp
  moreover have "response (get_records env_ok req_ABC1 (db_empty :: int db))
                   = Json 200 (RowArray [])"
    by (simp add: get_records_ok [OF env_ok_simps(1) req_sessions(6)] records_of_def db_empty_def)
  ultimately show ?thesis
    by (simp add: req_ABC1_def)
qed

text \<open>
  Claim C4, amended. Let the three fields of the request pass the test of presence and
  be read by the store as the values \<open>c\<close>, \<open>n\<close> and \<open>q\<close> of its columns (in \<^verbatim>\<open>server.js\<close> a
  code and a quantity that are 32-bit integers, as numbers or as numerals in a text).
  For a store whose ids are a primary key drawn from a sequence that is not exhausted,
  and a store that answers, \<^verbatim>\<open>POST /save\<close> answers 200 with the next id of the sequence.
  No row of the store has that id; the insertion advances the sequence and keeps the
  ids a primary key below it, so that every later creation on the resulting store
  receives another id. \<^verbatim>\<open>GET /records\<close> for the same session then returns the records the
  session had, followed by one record with that id, the session and the three values as
  the store read them, and no other record has that id.
\<close>

theorem create_then_list:
  assumes "wf_db d" and "in_int4 (next_id d)" and "db_up e 0" and "db_up e' 0"
    and "session_text req" and "getSessionId req' = getSessionId req"
    and "valid_input req c n q"
  shows "response (post_save e req d)
           = Json 200 (MessageId ''Registro guardado exitosamente'' (next_id d))
       \<and> list_all (\<lambda>r. row_id r \<noteq> next_id d) (rows d)
       \<and> next_id (store (post_save e req d)) = next_id d + 1
       \<and> wf_db (store (post_save e req d))
       \<and> (\<forall>e2 req2 i. response (post_save e2 req2 (store (post_save e req d)))
                          = Json 200 (MessageId ''Registro guardado exitosamente'' i)
                        \<longrightarrow> i = next_id d + 1)
       \<and> response (get_records e' req' (store (post_save e req d)))
           = Json 200 (RowArray (records_of (getSessionId req) d @
               [\<lparr>row_id = next_id d, code = c, name = n, quantity = q,
                 session_id = getSessionId req, created_at = now e\<rparr>]))
       \<and> filter (\<lambda>r. row_id r = next_id d)
            (records_of (getSessionId req) d @
               [\<lparr>row_id = next_id d, code = c, name = n, quantity = q,
                 session_id = getSessionId req, created_at = now e\<rparr>])
           = [\<lparr>row_id = next_id d, code = c, name = n, quantity = q,
               session_id = getSessionId req, created_at = now e\<rparr>]"
proof -
  let ?new = "\<lparr>row_id = next_id d, code = c, name = n, quantity = q,
               session_id = getSessionId req, created_at = now e\<rparr>"
  let ?d' = "store (post_save e req d)"
  have v: "save_valid req" "to_integer (body_code req) = Some c"
    "to_text (body_name req) = Some n" "to_integer (body_quantity req) = Some q"
    using assms(7) by (simp_all add: valid_input_def)
  have ran: "post_save e req d =
           \<lparr>response = Json 200 (MessageId ''Registro guardado exitosamente'' (next_id d)),
            store = d\<lparr>rows := rows d @ [?new], next_id := next_id d + 1\<rparr>,
            console = [], queries = 1\<rparr>"
    using post_save_ran [OF v(1) assms(3,5,2) v(2-4)] by (simp add: new_row_def)
  have below: "\<forall>r\<in>set (rows d). row_id r < next_id d"
    using assms(1) by (simp add: wf_db_def list_all_iff)
  then have fresh: "list_all (\<lambda>r. row_id r \<noteq> next_id d) (rows d)"
    by (auto simp add: list_all_iff)
  have advanced: "next_id ?d' = next_id d + 1"
    by (simp add: ran)
  have wf: "wf_db ?d'"
    using assms(1) by (rule wf_db_post_save)
  have later: "i = next_id d + 1"
    if "response (post_save e2 req2 ?d') = Json 200 (MessageId ''Registro guardado exitosamente'' i)"
    for e2 req2 i
    using that advanced by (cases e2 req2 ?d' rule: post_save_outcomes) simp_all
  have s': "session_text req'"
    using assms(5,6) by (simp add: session_text_def)
  have "filter (\<lambda>r. row_id r = next_id d) (records_of (getSessionId req) d) = []"
    using below by (auto simp add: records_of_def filter_empty_conv)
  then have one: "filter (\<lambda>r. row_id r = next_id d) (records_of (getSessionId req) d @ [?new])
                    = [?new]"
    by simp
  have listed: "response (get_records e' req' ?d')
                  = Json 200 (RowArray (records_of (getSessionId req) d @ [?new]))"
    using assms(6) by (simp add: get_records_ok [OF assms(4) s'] ran records_of_def)
  have first: "response (post_save e req d)
           = Json 200 (MessageId ''Registro guardado exitosamente'' (next_id d))"
    by (simp add: ran)
  from first fresh advanced wf later listed one show ?thesis
    by blast
qed

theorem create_then_list_witness:
  "wf_db db_three \<and> in_int4 (next_id db_three) \<and> db_up env_ok 0 \<and> session_text req_s1
   \<and> valid_input req_s1 1001 ''Widget'' 5
   \<and> response (post_save env_ok req_s1 db_three)
       = Json 200 (MessageId ''Registro guardado exitosamente'' 4)
   \<and> next_id (store (post_save env_ok req_s1 db_three)) = 5
   \<and> wf_db (store (post_save env_ok req_s1 db_three))
   \<and> response (get_records env_ok req_s1 (store (post_save env_ok req_s1 db_three)))
       = Json 200 (RowArray [widget 1 3 ''s1'', widget 2 4 ''s1'',
           \<lparr>row_id = 4, code = 1001, name = ''Widget'', quantity = 5, session_id = ''s1'',
             created_at = 1715904000\<rparr>])"
proof -
  have h: "wf_db db_three" "in_int4 (next_id db_three)" "db_up env_ok 0" "db_up env_ok 0"
    "session_text req_s1" "getSessionId req_s1 = getSessionId req_s1"
    "valid_input req_s1 1001 ''Widget'' 5"
    by (simp_all add: wf_db_three env_ok_simps req_sessions)
      (simp_all add: db_three_def in_int4_def valid_input_def save_valid_def req_s1_def)
  have r: "records_of ''s1'' db_three = [widget 1 3 ''s1'', widget 2 4 ''s1'']"
    "next_id db_three = 4" "now env_ok = 1715904000"
    by (simp_all add: records_of_def db_three_def widget_def env_ok_def)
  note t = create_then_list [OF h]
  have "response (post_save env_ok req_s1 db_three)
       = Json 200 (MessageId ''Registro guardado exitosamente'' 4)"
    using t by (simp add: r)
  moreover have "next_id (store (post_save env_ok req_s1 db_three)) = 5"
    using t by (simp add: r)
  moreover have "wf_db (store (post_save env_ok req_s1 db_three))"
    using t by blast
  moreover have "response (get_records env_ok req_s1 (store (post_save env_ok req_s1 db_three)))
       = Json 200 (RowArray [widget 1 3 ''s1'', widget 2 4 ''s1'',
           \<lparr>row_id = 4, code = 1001, name = ''Widget'', quantity = 5, session_id = ''s1'',
             created_at = 1715904000\<rparr>])"
    using t by (simp add: req_sessions r)
  ultimately show ?thesis
    using h by simp
qed

text \<open>The code and the quantity may come as numerals in a text: the store reads them as
  integers, and these are the values of the record.\<close>

lemma valid_input_numerals:
  "valid_input (req_s1\<lparr>body_code := JStr ''123'', body_quantity := JStr ''5''\<rparr>) 123 ''Widget'' 5"
  by (simp add: valid_input_def save_valid_def req_s1_def int4in_def pg_space_def strip_sign_def
      is_digit_def dec_value_def digit_val_def in_int4_def)

section \<open>The handler of \<^verbatim>\<open>part_000\<close>: numbers and long texts as code\<close>

lemma part_000_invalid:
  assumes "\<not> save_valid req"
  shows "post_save_part_000 e req d =
           \<lparr>response = Json 400 (ErrorMissing missing_data
                          (body_code req, body_name req, body_quantity req)
                          [''code'', ''name'', ''quantity'']),
            store = d, console = [''Datos recibidos:''], queries = 0\<rparr>"
  using assms by (auto simp add: post_save_part_000_def save_valid_def Let_def)

lemma part_000_number_throws:
  assumes "save_valid req" and "body_code req = JNum k"
  shows "post_save_part_000 e req d =
           \<lparr>response = Uncaught ''TypeError: Assignment to constant variable.'',
            store = d, console = [''Datos recibidos:''], queries = 0\<rparr>"
  using assms by (simp add: post_save_part_000_def save_valid_def Let_def)

lemma part_000_too_long:
  assumes "save_valid req" and "body_code req = JStr s" and "length s > 50"
  shows "post_save_part_000 e req d =
           \<lparr>response = Json 400 (ErrorLength code_too_long 50 (length s)),
            store = d, console = [''Datos recibidos:''], queries = 0\<rparr>"
  using assms by (simp add: post_save_part_000_def save_valid_def Let_def)

lemma part_000_ran:
  assumes "save_valid req" and "db_up e 0" and "session_text req" and "in_int4 (next_id d)"
    and "body_code req = JStr s" and "length s \<le> 50" and "CHR 0x00 \<notin> set s"
    and "to_text (body_name req) = Some n"
    and "parseInt (body_quantity req) = Some q" and "in_int4 q"
  shows "post_save_part_000 e req d =
           \<lparr>response = Json 200 (MessageId ''Registro guardado exitosamente'' (next_id d)),
            store = d\<lparr>rows := rows d @ [new_row e req s n q d], next_id := next_id d + 1\<rparr>,
            console = [''Datos recibidos:''], queries = 1\<rparr>"
proof -
  have c: "to_varchar50 (to_text (body_code req)) = Some s"
    using assms(5-7) by (simp add: to_varchar50_def)
  have q: "(case parseInt (body_quantity req) of None \<Rightarrow> None | Some v \<Rightarrow> to_integer (JNum v))
             = Some q"
    using assms(9,10) by simp
  have t: "typeof (body_code req) = ''string''"
    using assms(5) by simp
  show ?thesis
    using assms(1,5,6) unfolding post_save_part_000_def Let_def c q t assms(8)
      insert_ran [OF assms(2-4)]
    by (simp add: save_valid_def)
qed

lemma part_000_out_of_range:
  assumes "save_valid req" and "body_code req = JStr s" and "length s \<le> 50"
    and "body_quantity req = JNum q" and "\<not> in_int4 q" and "\<bar>q\<bar> < 2 ^ 53"
  shows "response (post_save_part_000 e req d) = Json 500 (ErrorDetails internal_error
           (if development e then Some ''err.message'' else None))"
    and "store (post_save_part_000 e req d) = d"
proof -
  have q: "(case parseInt (body_quantity req) of None \<Rightarrow> None | Some v \<Rightarrow> to_integer (JNum v))
             = None"
    using assms(4,5) parseInt_number [OF assms(6)] by simp
  have t: "typeof (body_code req) = ''string''"
    using assms(2) by simp
  have r: "pool_query e 0
             (insert_product (now e) (to_varchar50 (to_text (body_code req)))
                (to_text (body_name req)) None (to_text (JStr (getSessionId req)))) d = (d, None)"
    by (rule insert_refused) simp
  show "response (post_save_part_000 e req d) = Json 500 (ErrorDetails internal_error
           (if development e then Some ''err.message'' else None))"
    and "store (post_save_part_000 e req d) = d"
    using assms(1-3) unfolding post_save_part_000_def Let_def q t r
    by (simp_all add: save_valid_def)
qed

text \<open>The quantity \<^verbatim>\<open>1e21\<close> is not so refused: \<^verbatim>\<open>parseInt\<close> reads the 1 of its text
  \<^verbatim>\<open>1e+21\<close>, and the record is stored with the quantity 1.\<close>

lemma part_000_quantity_1e21:
  assumes "save_valid req" and "body_code req = JStr c" and "length c \<le> 50"
    and "CHR 0x00 \<notin> set c" and "to_text (body_name req) = Some n"
    and "db_up e 0" and "session_text req" and "in_int4 (next_id d)"
    and "body_quantity req = JNum 1000000000000000000000"
  shows "response (post_save_part_000 e req d)
           = Json 200 (MessageId ''Registro guardado exitosamente'' (next_id d))"
    and "rows (store (post_save_part_000 e req d)) = rows d @ [new_row e req c n 1 d]"
proof -
  have q: "parseInt (body_quantity req) = Some 1" "in_int4 1"
    using assms(9) parseInt_1e21 by (simp_all add: in_int4_def)
  note ran = part_000_ran [OF assms(1,6-8,2-5) q]
  show "response (post_save_part_000 e req d)
           = Json 200 (MessageId ''Registro guardado exitosamente'' (next_id d))"
    and "rows (store (post_save_part_000 e req d)) = rows d @ [new_row e req c n 1 d]"
    by (simp_all add: ran)
qed

text \<open>
  Claim C5. A number as code is meant to be turned into its text and stored. It is not:
  whenever the three fields are present and the code is a number, the assignment to the
  constant \<^verbatim>\<open>code\<close> throws, so that no response is sent, no query is issued and the
  store is unchanged. The body \<^verbatim>\<open>{code: 123, name: "Widget", quantity: 5}\<close> is such a
  request.
\<close>

theorem save_part_000_numeric_code:
  assumes "save_valid req" and "body_code req = JNum k"
  shows "response (post_save_part_000 e req d)
           = Uncaught ''TypeError: Assignment to constant variable.''
         \<and> store (post_save_part_000 e req d) = d
         \<and> queries (post_save_part_000 e req d) = 0"
  using assms by (simp add: part_000_number_throws)

theorem save_part_000_numeric_code_witness:
  "save_valid req_123 \<and> body_code req_123 = JNum 123
   \<and> response (post_save_part_000 env_ok req_123 db_empty)
       = Uncaught ''TypeError: Assignment to constant variable.''
   \<and> store (post_save_part_000 env_ok req_123 db_empty) = db_empty
   \<and> queries (post_save_part_000 env_ok req_123 db_empty) = 0"
proof -
  have h: "save_valid req_123" "body_code req_123 = JNum 123"
    by (simp_all add: save_valid_def req_123_def req_ABC1_def)
  show ?thesis
    using h save_part_000_numeric_code [OF h, of env_ok db_empty] by simp
qed

text \<open>The other half of the claim holds: a text of more than 50 characters is refused
  with a 400 before any query, and a text of at most 50 is stored as it is.\<close>

lemma save_part_000_long_code:
  assumes "save_valid req" and "body_code req = JStr s" and "length s > 50"
  shows "response (post_save_part_000 e req d) = Json 400 (ErrorLength code_too_long 50 (length s))
         \<and> store (post_save_part_000 e req d) = d \<and> queries (post_save_part_000 e req d) = 0"
  using assms by (simp add: part_000_too_long)

section \<open>The quantity of a new record\<close>

text \<open>
  Claim C6. The quantity 0 is a quantity that is present, and the claim has it accepted
  and stored. It is not: the test of the required fields, \<^verbatim>\<open>!quantity\<close>, holds of the
  number 0, so that whatever the code and the name, both handlers answer 400 as for a
  missing field, issue no query and leave the store as it was. The bodies
  \<^verbatim>\<open>{code: 1001, name: "Widget", quantity: 0}\<close> for \<^verbatim>\<open>server.js\<close> and
  \<^verbatim>\<open>{code: "ABC1", name: "Widget", quantity: 0}\<close> for \<^verbatim>\<open>part_000\<close> are such requests.
\<close>

theorem create_rejects_zero_quantity:
  assumes "body_quantity req = JNum 0"
  shows "response (post_save e req d) = Json 400 (Error missing_data)
       \<and> store (post_save e req d) = d \<and> queries (post_save e req d) = 0
       \<and> response (post_save_part_000 e req d')
           = Json 400 (ErrorMissing missing_data (body_code req, body_name req, JNum 0)
               [''code'', ''name'', ''quantity''])
       \<and> store (post_save_part_000 e req d') = d'
       \<and> queries (post_save_part_000 e req d') = 0"
proof -
  have "\<not> save_valid req"
    using assms by (simp add: save_valid_def)
  then show ?thesis
    using assms by (simp add: post_save_invalid part_000_invalid)
qed

theorem create_rejects_zero_quantity_witness:
  "body_quantity req_zero = JNum 0 \<and> code_name_valid req_zero 1001 ''Widget''
   \<and> response (post_save env_ok req_zero db_empty) = Json 400 (Error missing_data)
   \<and> store (post_save env_ok req_zero db_empty) = db_empty
   \<and> body_quantity req_ABC1_zero = JNum 0
   \<and> code_name_valid_part_000 req_ABC1_zero ''ABC1'' ''Widget''
   \<and> response (post_save_part_000 env_ok req_ABC1_zero db_empty)
       = Json 400 (ErrorMissing missing_data (JStr ''ABC1'', JStr ''Widget'', JNum 0)
           [''code'', ''name'', ''quantity''])
   \<and> store (post_save_part_000 env_ok req_ABC1_zero db_empty) = db_empty"
proof -
  have q: "body_quantity req_zero = JNum 0" "body_quantity req_ABC1_zero = JNum 0"
    by (simp_all add: req_zero_def req_ABC1_zero_def)
  have v: "code_name_valid req_zero 1001 ''Widget''"
    "code_name_valid_part_000 req_ABC1_zero ''ABC1'' ''Widget''"
    by (simp_all add: code_name_valid_def code_name_valid_part_000_def req_zero_def req_s1_def
        req_ABC1_zero_def req_ABC1_def in_int4_def)
  have f: "body_code req_ABC1_zero = JStr ''ABC1''" "body_name req_ABC1_zero = JStr ''Widget''"
    by (simp_all add: req_ABC1_zero_def req_ABC1_def)
  show ?thesis
    using q v f create_rejects_zero_quantity [OF q(1), of env_ok "db_empty :: int db" db_empty]
      create_rejects_zero_quantity [OF q(2), of env_ok "db_empty :: int db" db_empty]
    by simp
qed

text \<open>
  The rest of the claim holds: the sign is not tested. With a valid code and a valid
  name, a store that answers and a sequence that is not exhausted, both handlers accept
  every number of 32 bits other than 0, the negative ones included, and store it as
  given. A number that does not fit the 32 bits of the column is refused by the store of
  \<^verbatim>\<open>server.js\<close> and answered by 500.
\<close>

lemma create_accepts_nonzero_quantity:
  assumes "db_up e 0" and "session_text req" and "body_quantity req = JNum q"
    and "q \<noteq> 0" and "in_int4 q"
  shows "code_name_valid req c n \<Longrightarrow> in_int4 (next_id d) \<Longrightarrow>
           response (post_save e req d)
             = Json 200 (MessageId ''Registro guardado exitosamente'' (next_id d))
         \<and> rows (store (post_save e req d)) = rows d @ [new_row e req c n q d]"
    and "code_name_valid_part_000 req c' n \<Longrightarrow> in_int4 (next_id d') \<Longrightarrow>
           response (post_save_part_000 e req d')
             = Json 200 (MessageId ''Registro guardado exitosamente'' (next_id d'))
         \<and> rows (store (post_save_part_000 e req d')) = rows d' @ [new_row e req c' n q d']"
proof -
  assume cn: "code_name_valid req c n" and sq: "in_int4 (next_id d)"
  then have b: "to_integer (body_code req) = Some c" "to_text (body_name req) = Some n"
    and t: "truthy (body_code req)" "truthy (body_name req)"
    by (simp_all add: code_name_valid_def)
  have v: "save_valid req" and bq: "to_integer (body_quantity req) = Some q"
    using t assms(3-5) by (simp_all add: save_valid_def)
  show "response (post_save e req d)
          = Json 200 (MessageId ''Registro guardado exitosamente'' (next_id d))
        \<and> rows (store (post_save e req d)) = rows d @ [new_row e req c n q d]"
    by (simp add: post_save_ran [OF v assms(1,2) sq b bq])
next
  assume cn: "code_name_valid_part_000 req c' n" and sq: "in_int4 (next_id d')"
  then have c: "body_code req = JStr c'" "length c' \<le> 50" "CHR 0x00 \<notin> set c'"
    and b: "to_text (body_name req) = Some n"
    and t: "truthy (body_code req)" "truthy (body_name req)"
    by (simp_all add: code_name_valid_part_000_def)
  have v: "save_valid req"
    using t assms(3,4) by (simp add: save_valid_def)
  have bq: "parseInt (body_quantity req) = Some q"
    using assms(3) parseInt_int4 [OF assms(5)] by simp
  show "response (post_save_part_000 e req d')
          = Json 200 (MessageId ''Registro guardado exitosamente'' (next_id d'))
        \<and> rows (store (post_save_part_000 e req d')) = rows d' @ [new_row e req c' n q d']"
    by (simp add: part_000_ran [OF v assms(1,2) sq c b bq assms(5)])
qed

lemma create_refuses_wide_quantity:
  assumes "code_name_valid req c n" and "body_quantity req = JNum q" and "\<not> in_int4 q"
  shows "response (post_save e req d) = Json 500 (Error internal_error)"
    and "store (post_save e req d) = d"
proof -
  have "q \<noteq> 0"
    using assms(3) by (auto simp add: in_int4_def)
  then have v: "save_valid req"
    using assms(1,2) by (simp add: save_valid_def code_name_valid_def)
  have "to_integer (body_quantity req) = None"
    using assms(2,3) by simp
  then have "post_save e req d =
         \<lparr>response = Json 500 (Error internal_error), store = d,
          console = [''Error al guardar:''], queries = 1\<rparr>"
    by (intro post_save_refused [OF v]) simp
  then show "response (post_save e req d) = Json 500 (Error internal_error)"
    and "store (post_save e req d) = d"
    by simp_all
qed

section \<open>The id of a deletion\<close>

text \<open>
  Claim C7, as the claim states it, fails at the id \<^verbatim>\<open>1.5\<close>: it is not an integer, yet
  \<^verbatim>\<open>isNaN\<close> is false of it, the query is issued, and the answer is the 500 of the store
  that refuses the text as an integer, not a 400.
\<close>

theorem delete_passes_non_integer_id:
  "\<not> integer_syntax (param_id req_1_5)
   \<and> queries (delete_delete env_ok req_1_5 db_three) = 1
   \<and> response (delete_delete env_ok req_1_5 db_three) = Json 500 (Error internal_error)"
proof -
  have i: "param_id req_1_5 = ''1.5''"
    by (simp add: req_1_5_def)
  have n: "\<not> integer_syntax ''1.5''"
    by (simp add: integer_syntax_def strip_sign_def is_digit_def)
  have v: "delete_valid req_1_5"
    by (simp add: delete_valid_def i isNaN_def string_numeric_literal_def trim_def js_space_def
        non_decimal_literal_def strip_sign_def unsigned_decimal_literal_def is_digit_def
        exponent_part_def)
  have "int4in (param_id req_1_5) = None"
    by (simp add: i int4in_def pg_space_def strip_sign_def is_digit_def)
  then have "\<not> (db_up env_ok 0 \<and> int4in (param_id req_1_5) \<noteq> None \<and> session_text req_1_5)"
    by simp
  from delete_delete_refused [OF v this, of db_three] n i show ?thesis
    by simp
qed

text \<open>
  Claim C7, amended. The check of \<^verbatim>\<open>DELETE /delete/:id\<close> is that the id is a number for
  JavaScript. An id that is empty or of which \<^verbatim>\<open>isNaN\<close> holds is answered by 400 with
  no query issued and the store untouched; no query is issued in that case only; and
  every syntactically valid integer passes the check, so that its query is issued.
\<close>

theorem delete_rejects_non_numeric_id:
  "(param_id req = [] \<or> isNaN (param_id req) \<longrightarrow>
      response (delete_delete e req d) = Json 400 (Error invalid_id)
    \<and> store (delete_delete e req d) = d \<and> queries (delete_delete e req d) = 0)
   \<and> (queries (delete_delete e req d) = 0 \<longrightarrow> param_id req = [] \<or> isNaN (param_id req))
   \<and> (integer_syntax (param_id req) \<longrightarrow>
        response (delete_delete e req d) \<noteq> Json 400 (Error invalid_id)
      \<and> queries (delete_delete e req d) = 1)"
proof (intro conjI impI)
  assume "param_id req = [] \<or> isNaN (param_id req)"
  then have "\<not> delete_valid req"
    by (simp add: delete_valid_def)
  then show "response (delete_delete e req d) = Json 400 (Error invalid_id)"
    and "store (delete_delete e req d) = d" and "queries (delete_delete e req d) = 0"
    by (simp_all add: delete_delete_invalid)
next
  assume "queries (delete_delete e req d) = 0"
  then have "\<not> delete_valid req"
    by (cases e req d rule: delete_delete_outcomes) simp_all
  then show "param_id req = [] \<or> isNaN (param_id req)"
    by (simp add: delete_valid_def)
next
  assume "integer_syntax (param_id req)"
  then have v: "delete_valid req"
    using integer_syntax_numeric by (simp add: delete_valid_def)
  show "response (delete_delete e req d) \<noteq> Json 400 (Error invalid_id)"
    by (cases e req d rule: delete_delete_outcomes) (use v in simp_all)
  show "queries (delete_delete e req d) = 1"
    by (cases e req d rule: delete_delete_outcomes) (use v in simp_all)
qed

theorem delete_rejects_non_numeric_id_witness:
  "isNaN (param_id req_abc)
   \<and> response (delete_delete env_ok req_abc db_three) = Json 400 (Error invalid_id)
   \<and> store (delete_delete env_ok req_abc db_three) = db_three
   \<and> queries (delete_delete env_ok req_abc db_three) = 0
   \<and> integer_syntax (param_id req_s1)
   \<and> response (delete_delete env_ok req_s1 db_three) \<noteq> Json 400 (Error invalid_id)
   \<and> queries (delete_delete env_ok req_s1 db_three) = 1"
proof -
  have a: "isNaN (param_id req_abc)"
    by (simp add: req_abc_def isNaN_def string_numeric_literal_def trim_def js_space_def
        non_decimal_literal_def strip_sign_def unsigned_decimal_literal_def is_digit_def
        is_hex_digit_def is_octal_digit_def is_binary_digit_def exponent_part_def)
  have b: "integer_syntax (param_id req_s1)"
    by (simp add: req_s1_def integer_syntax_def strip_sign_def is_digit_def)
  show ?thesis
    using a b delete_rejects_non_numeric_id [of req_abc env_ok db_three]
      delete_rejects_non_numeric_id [of req_s1 env_ok db_three]
    by simp
qed

text \<open>Other ids that are numbers without being integers pass the check as well.\<close>

lemma numbers_that_are_not_integers:
  "\<not> isNaN ''0x10''" "\<not> isNaN ''1e3''" "\<not> isNaN ''Infinity''" "\<not> isNaN '' 7 ''"
  "\<not> integer_syntax ''0x10''" "\<not> integer_syntax ''1e3''" "\<not> integer_syntax ''Infinity''"
  by (simp_all add: isNaN_def string_numeric_literal_def trim_def js_space_def
      non_decimal_literal_def strip_sign_def unsigned_decimal_literal_def is_digit_def
      is_hex_digit_def exponent_part_def integer_syntax_def)

section \<open>Create, then list, in \<^verbatim>\<open>part_000\<close>\<close>

text \<open>The amended claim C4 holds of the handler of \<^verbatim>\<open>part_000\<close> as well, where the code
  is a text of at most 50 characters and the quantity is what \<^verbatim>\<open>parseInt\<close> reads of it.\<close>

lemma create_then_list_part_000:
  assumes "wf_db d" and "in_int4 (next_id d)" and "db_up e 0" and "db_up e' 0"
    and "session_text req" and "getSessionId req' = getSessionId req"
    and "valid_input_part_000 req c n q"
  shows "response (post_save_part_000 e req d)
           = Json 200 (MessageId ''Registro guardado exitosamente'' (next_id d))
       \<and> next_id (store (post_save_part_000 e req d)) = next_id d + 1
       \<and> wf_db (store (post_save_part_000 e req d))
       \<and> response (get_records e' req' (store (post_save_part_000 e req d)))
           = Json 200 (RowArray (records_of (getSessionId req) d @ [new_row e req c n q d]))
       \<and> filter (\<lambda>r. row_id r = next_id d)
            (records_of (getSessionId req) d @ [new_row e req c n q d])
           = [new_row e req c n q d]"
proof -
  have v: "save_valid req" "body_code req = JStr c" "length c \<le> 50" "CHR 0x00 \<notin> set c"
    "to_text (body_name req) = Some n" "parseInt (body_quantity req) = Some q" "in_int4 q"
    using assms(7) by (simp_all add: valid_input_part_000_def)
  note ran = part_000_ran [OF v(1) assms(3,5,2) v(2-7)]
  have below: "\<forall>r\<in>set (rows d). row_id r < next_id d"
    using assms(1) by (simp add: wf_db_def list_all_iff)
  have s': "session_text req'"
    using assms(5,6) by (simp add: session_text_def)
  have "filter (\<lambda>r. row_id r = next_id d) (records_of (getSessionId req) d) = []"
    using below by (auto simp add: records_of_def filter_empty_conv)
  then have one: "filter (\<lambda>r. row_id r = next_id d)
                    (records_of (getSessionId req) d @ [new_row e req c n q d])
                    = [new_row e req c n q d]"
    by (simp add: new_row_def)
  have listed: "response (get_records e' req' (store (post_save_part_000 e req d)))
                  = Json 200 (RowArray (records_of (getSessionId req) d @ [new_row e req c n q d]))"
    using assms(6) by (simp add: get_records_ok [OF assms(4) s'] ran records_of_def new_row_def)
  have wf: "wf_db (store (post_save_part_000 e req d))"
    using assms(1) by (rule wf_db_post_save_part_000)
  show ?thesis
    using one listed wf by (simp add: ran)
qed

text \<open>The text \<^verbatim>\<open>ABC1\<close>, which the store of \<^verbatim>\<open>server.js\<close> refuses as a code, is a valid
  code there.\<close>

lemma part_000_accepts_text_code:
  "valid_input_part_000 req_ABC1 ''ABC1'' ''Widget'' 5"
  "response (post_save_part_000 env_ok req_ABC1 db_empty)
     = Json 200 (MessageId ''Registro guardado exitosamente'' 1)"
proof -
  have q: "parseInt (body_quantity req_ABC1) = Some 5" "in_int4 5"
    using parseInt_int4 [of 5] by (simp_all add: req_ABC1_def in_int4_def)
  then show v: "valid_input_part_000 req_ABC1 ''ABC1'' ''Widget'' 5"
    by (simp add: valid_input_part_000_def save_valid_def) (simp add: req_ABC1_def)
  have "wf_db (db_empty :: string db)" "in_int4 (next_id (db_empty :: string db))"
    by (simp_all add: wf_db_empty) (simp add: db_empty_def in_int4_def)
  from create_then_list_part_000 [OF this env_ok_simps(1) env_ok_simps(1) req_sessions(6) refl v]
  show "response (post_save_part_000 env_ok req_ABC1 db_empty)
     = Json 200 (MessageId ''Registro guardado exitosamente'' 1)"
    by (simp add: db_empty_def)
qed

end
